theory Spec2Isabelle
  imports Complex_Main
begin

section \<open>Numbers, errors and array access\<close>

text \<open>
  The script \<open>CalcZ.py\<close> computes with IEEE doubles. The embedding computes with exact
  real and complex numbers: a finite value \<open>Fin x\<close> is the exact result, where the code
  holds that result rounded at every operation. The exact value is what the code computes
  wherever every intermediate result is a double (small integers and halves, as in the
  concrete inputs evaluated below); elsewhere the two differ by the rounding, which the
  closed form of \<open>FilonLagrange\<close> amplifies where \<open>ff * t\<close> is small. What is stated
  below about lengths, indices, the samples read, the errors and the values that are not
  finite does not depend on the rounding; where a statement gives a finite value, it is
  the value of exact arithmetic. A NumPy division by zero does not raise: it yields an
  infinity or a NaN, and every sum and product computed from such a value is again an
  infinity or a NaN. \<open>NonFin\<close> stands for such a value (an infinity, a NaN, or a value
  computed from one).
\<close>

datatype 'a fval = Fin 'a | NonFin

text \<open>
  \<open>IndexError\<close> and \<open>ValueError\<close> are the exceptions the interpreter and NumPy raise
  in the code modelled here. The compiled \<open>FilonLagrange\<close> does not check bounds: an
  access outside an array raises nothing and its effect is undefined; the model stops
  there with \<open>OutOfBounds\<close>, and nothing is stated about such a run.
\<close>

datatype error = IndexError | ValueError | OutOfBounds

text \<open>Arithmetic on \<open>fval\<close>: \<open>NonFin\<close> is absorbing for sums, differences and products.\<close>

fun lift2 :: "('a \<Rightarrow> 'b \<Rightarrow> 'c) \<Rightarrow> 'a fval \<Rightarrow> 'b fval \<Rightarrow> 'c fval" where
  "lift2 f (Fin x) (Fin y) = Fin (f x y)"
| "lift2 f _ _ = NonFin"

definition fadd :: "('a::plus) fval \<Rightarrow> 'a fval \<Rightarrow> 'a fval" where
  "fadd = lift2 (+)"

definition fsub :: "('a::minus) fval \<Rightarrow> 'a fval \<Rightarrow> 'a fval" where
  "fsub = lift2 (-)"

definition fmul :: "('a::times) fval \<Rightarrow> 'a fval \<Rightarrow> 'a fval" where
  "fmul = lift2 (*)"

section \<open>The window (\<open>Window\<close>, lines 140-161)\<close>

text \<open>
  \<open>ep\<close> and \<open>tau\<close> are globals of the script; the model takes them as the parameters
  \<open>\<epsilon>\<close> and \<open>\<tau>\<close>, and the script's values are \<open>ep\<close> and \<open>tau\<close> below. The loop
  appends \<open>ACF[i]*W\<close> for \<open>i\<close> in \<open>range(len(time))\<close>; \<open>ACF[i]\<close> raises IndexError
  when \<open>ACF\<close> is shorter than \<open>time\<close>. The denominator \<open>exp(..) + 1\<close> is never zero.
\<close>

definition ep :: real where
  "ep = 189 / 10 * 10 ^ 9"

definition tau :: real where
  "tau = 5 / 10 / 10 ^ 9"

definition W :: "real \<Rightarrow> real \<Rightarrow> real \<Rightarrow> real" where
  "W \<epsilon> \<tau> t = (exp (- 1 * \<epsilon> * \<tau>) + 1) / (exp (\<epsilon> * (t - \<tau>)) + 1)"

fun Window_loop :: "real \<Rightarrow> real \<Rightarrow> real list \<Rightarrow> real list \<Rightarrow> nat list \<Rightarrow> real list
    \<Rightarrow> error + real list" where
  "Window_loop \<epsilon> \<tau> ACF time [] ACF_window = Inr ACF_window"
| "Window_loop \<epsilon> \<tau> ACF time (i # is) ACF_window =
     (if length ACF \<le> i then Inl IndexError
      else Window_loop \<epsilon> \<tau> ACF time is (ACF_window @ [ACF ! i * W \<epsilon> \<tau> (time ! i)]))"

definition Window :: "real \<Rightarrow> real \<Rightarrow> real list \<Rightarrow> real list \<Rightarrow> error + real list" where
  "Window \<epsilon> \<tau> ACF time = Window_loop \<epsilon> \<tau> ACF time [0..<length time] []"

section \<open>Polynomials of \<open>numpy.poly1d\<close> and \<open>scipy.interpolate.lagrange\<close>\<close>

text \<open>
  \<open>LagrangeInterpol\<close> calls \<open>scipy.interpolate.lagrange(x, y)\<close> and stores
  \<open>p.coef\<close>. The library code is transcribed here. A \<open>poly1d\<close> holds its coefficients
  highest degree first, and its constructor strips the leading coefficients that are
  equal to zero (\<open>trim_zeros(c, trim='f')\<close>; an infinity or a NaN is not equal to
  zero), keeping \<open>[0]\<close> for the zero polynomial; \<open>polyadd\<close> pads the shorter argument
  with leading zeros, \<open>polymul\<close> is \<open>convolve\<close>, and both build a \<open>poly1d\<close> from the
  result.
\<close>

definition poly1d :: "real fval list \<Rightarrow> real fval list" where
  "poly1d c = (let t = dropWhile (\<lambda>x. x = Fin 0) c in if t = [] then [Fin 0] else t)"

definition polyadd :: "real fval list \<Rightarrow> real fval list \<Rightarrow> real fval list" where
  "polyadd a1 a2 =
     poly1d (map2 fadd (replicate (length a2 - length a1) (Fin 0) @ a1)
                       (replicate (length a1 - length a2) (Fin 0) @ a2))"

text \<open>
  \<open>numpy.convolve(a, v)\<close> in its default full mode, for nonempty arguments: entry \<open>n\<close>
  is the sum of the products \<open>a[m] * v[n - m]\<close>.
\<close>

definition fsum :: "real fval list \<Rightarrow> real fval" where
  "fsum xs = foldr fadd xs (Fin 0)"

definition convolve :: "real fval list \<Rightarrow> real fval list \<Rightarrow> real fval list" where
  "convolve a v =
     map (\<lambda>n. fsum (map (\<lambda>m. fmul (a ! m) (v ! (n - m)))
                    (filter (\<lambda>m. m \<le> n \<and> n - m < length v) [0..<length a])))
       [0..<length a + length v - 1]"

definition polymul :: "real fval list \<Rightarrow> real fval list \<Rightarrow> real fval list" where
  "polymul a1 a2 = poly1d (convolve (poly1d a1) (poly1d a2))"

text \<open>
  \<open>poly1d.__truediv__\<close> by a scalar divides every coefficient; the quotient by \<open>0.0\<close>
  is an infinity, or a NaN for a zero coefficient.
\<close>

fun fdivs :: "real fval \<Rightarrow> real \<Rightarrow> real fval" where
  "fdivs (Fin c) fac = (if fac = 0 then NonFin else Fin (c / fac))"
| "fdivs NonFin fac = NonFin"

definition poly_div :: "real fval list \<Rightarrow> real \<Rightarrow> real fval list" where
  "poly_div p fac = poly1d (map (\<lambda>c. fdivs c fac) p)"

text \<open>
  \<open>lagrange(x, w)\<close>: for each \<open>j\<close>, \<open>pt = poly1d(w[j])\<close> is multiplied by
  \<open>poly1d([1.0, -x[k]])/fac\<close> with \<open>fac = x[j]-x[k]\<close> for every \<open>k \<noteq> j\<close>, and the
  \<open>pt\<close> are summed into \<open>p\<close>, which starts as \<open>poly1d(0.0)\<close>. \<open>w[j]\<close> raises
  IndexError when \<open>w\<close> is shorter than \<open>x\<close>. Nothing is raised when two entries of \<open>x\<close>
  coincide: \<open>fac\<close> is \<open>0.0\<close> and the factor is \<open>[inf, \<plusminus>inf or nan]\<close>.
\<close>

fun lagrange_pt :: "real list \<Rightarrow> nat \<Rightarrow> nat list \<Rightarrow> real fval list \<Rightarrow> real fval list" where
  "lagrange_pt x j [] pt = pt"
| "lagrange_pt x j (k # ks) pt =
     (if k = j then lagrange_pt x j ks pt
      else lagrange_pt x j ks
             (polymul pt (poly_div (poly1d [Fin 1, Fin (- (x ! k))]) (x ! j - x ! k))))"

fun lagrange_sum :: "real list \<Rightarrow> real list \<Rightarrow> nat list \<Rightarrow> real fval list \<Rightarrow> real fval list" where
  "lagrange_sum x w [] p = p"
| "lagrange_sum x w (j # js) p =
     lagrange_sum x w js (polyadd p (lagrange_pt x j [0..<length x] (poly1d [Fin (w ! j)])))"

definition lagrange_poly :: "real list \<Rightarrow> real list \<Rightarrow> real fval list" where
  "lagrange_poly x w = lagrange_sum x w [0..<length x] (poly1d [Fin 0])"

definition lagrange :: "real list \<Rightarrow> real list \<Rightarrow> error + real fval list" where
  "lagrange x w = (if length w < length x then Inl IndexError else Inr (lagrange_poly x w))"

section \<open>The segment interpolator (\<open>LagrangeInterpol\<close>, lines 60-89)\<close>

text \<open>
  \<open>coeffs\<close> is an array of shape \<open>(m, 3)\<close>: a list of rows. \<open>a[i:j]\<close> is the slice of a
  list or array for \<open>0 \<le> i \<le> j\<close>.
\<close>

type_synonym row = "real fval \<times> real fval \<times> real fval"

definition slice :: "'a list \<Rightarrow> nat \<Rightarrow> nat \<Rightarrow> 'a list" where
  "slice xs i j = take (j - i) (drop i xs)"

text \<open>
  \<open>coeffs[ipp,:] = p.coef\<close>: IndexError when \<open>ipp\<close> is not a row of \<open>coeffs\<close>; a
  coefficient array of length 3 fills the row, one of length 1 is broadcast to the three
  columns, and any other length raises ValueError (could not broadcast).
\<close>

definition broadcast3 :: "real fval list \<Rightarrow> error + row" where
  "broadcast3 coef =
     (case coef of
        [a, b, c] \<Rightarrow> Inr (a, b, c)
      | [c] \<Rightarrow> Inr (c, c, c)
      | _ \<Rightarrow> Inl ValueError)"

definition assign_row :: "row list \<Rightarrow> nat \<Rightarrow> real fval list \<Rightarrow> error + row list" where
  "assign_row coeffs ipp coef =
     (if length coeffs \<le> ipp then Inl IndexError
      else (case broadcast3 coef of
              Inl e \<Rightarrow> Inl e
            | Inr r \<Rightarrow> Inr (coeffs[ipp := r])))"

text \<open>
  \<open>range(start, stop, 2)\<close> for \<open>start \<ge> 0\<close>; \<open>stop\<close> may be negative
  (\<open>len(Time)-1\<close> or \<open>len(Time)-2\<close> of a short array). Outside \<open>@njit\<close>, Numba's
  \<open>prange\<close> is \<open>range\<close>.
\<close>

definition range2 :: "nat \<Rightarrow> int \<Rightarrow> nat list" where
  "range2 start stop = map (\<lambda>k. start + 2 * k) [0..<nat ((stop - int start + 1) div 2)]"

fun LagrangeInterpol_loop :: "real list \<Rightarrow> real list \<Rightarrow> nat list \<Rightarrow> nat \<Rightarrow> row list
    \<Rightarrow> error + row list" where
  "LagrangeInterpol_loop Time Signal [] ipp coeffs = Inr coeffs"
| "LagrangeInterpol_loop Time Signal (ip # ips) ipp coeffs =
     (case lagrange (slice Time (ip - 1) (ip + 2)) (slice Signal (ip - 1) (ip + 2)) of
        Inl e \<Rightarrow> Inl e
      | Inr coef \<Rightarrow>
          (case assign_row coeffs ipp coef of
             Inl e \<Rightarrow> Inl e
           | Inr coeffs' \<Rightarrow> LagrangeInterpol_loop Time Signal ips (ipp + 1) coeffs'))"

definition LagrangeInterpol :: "row list \<Rightarrow> real list \<Rightarrow> real list \<Rightarrow> error + row list" where
  "LagrangeInterpol coeffs Time Signal =
     LagrangeInterpol_loop Time Signal (range2 1 (int (length Time) - 1)) 0 coeffs"

section \<open>The oscillatory quadrature (\<open>FilonLagrange\<close>, lines 19-58)\<close>

text \<open>
  The summand of lines 52-55 for one frequency \<open>ff\<close>, one segment \<open>(t1, t2)\<close> and finite
  coefficients \<open>a\<close>, \<open>b\<close>, \<open>c\<close>, as the exact value of the expression. The code
  evaluates the expression in doubles: where \<open>ff * t\<close> is small the difference of the
  two brackets is lost to cancellation, and where \<open>ff**3\<close> underflows the result is a
  NaN.
\<close>

definition filon_term :: "real \<Rightarrow> real \<Rightarrow> real \<Rightarrow> real \<Rightarrow> real \<Rightarrow> real \<Rightarrow> complex" where
  "filon_term ff t1 t2 a b c =
     (1 / of_real ff ^ 3) *
       (exp (- 1 * \<i> * of_real ff * of_real t2) *
          (of_real a * (of_real ff * of_real t2 * (2 + 1 * \<i> * of_real ff * of_real t2) - 2 * 1 * \<i>)
           + of_real ff * (1 * \<i> * of_real b * of_real ff * of_real t2 + of_real b
                           + 1 * \<i> * of_real c * of_real ff))
        - 1 * \<i> * exp (- 1 * \<i> * of_real ff * of_real t1) *
          (of_real a * (- 2 + of_real ff * of_real t1 * (of_real ff * of_real t1 - 2 * 1 * \<i>))
           + of_real ff * (of_real c * of_real ff + of_real b * (of_real ff * of_real t1 - 1 * \<i>))))"

text \<open>
  With a coefficient that is not finite the summand is not finite. For \<open>ff = 0\<close>
  nothing is raised: \<open>1/ff**3\<close> is an infinity, the bracket is zero, and the product is
  a NaN.
\<close>

fun filon_summand :: "real \<Rightarrow> real \<Rightarrow> real \<Rightarrow> row \<Rightarrow> complex fval" where
  "filon_summand ff t1 t2 (Fin a, Fin b, Fin c) =
     (if ff = 0 then NonFin else Fin (filon_term ff t1 t2 a b c))"
| "filon_summand ff t1 t2 _ = NonFin"

text \<open>
  The inner loop \<open>for it in range(0,len(Time)-2,2)\<close> with its counter \<open>ip\<close>. The
  compiled code does not check the bounds of \<open>coeffs[ip]\<close> and \<open>DFT[ifreq]\<close>.
\<close>

fun FilonLagrange_inner :: "real list \<Rightarrow> real list \<Rightarrow> row list \<Rightarrow> nat \<Rightarrow> nat list \<Rightarrow> nat
    \<Rightarrow> complex fval list \<Rightarrow> error + complex fval list" where
  "FilonLagrange_inner freq Time coeffs ifreq [] ip DFT = Inr DFT"
| "FilonLagrange_inner freq Time coeffs ifreq (it # its) ip DFT =
     (if length Time \<le> it + 2 \<or> length coeffs \<le> ip \<or> length freq \<le> ifreq \<or> length DFT \<le> ifreq
      then Inl OutOfBounds
      else FilonLagrange_inner freq Time coeffs ifreq its (ip + 1)
             (DFT[ifreq := fadd (DFT ! ifreq)
                (filon_summand (freq ! ifreq) (Time ! it) (Time ! (it + 2)) (coeffs ! ip))]))"

text \<open>
  The outer loop \<open>for ifreq in prange(len(freq))\<close>. Each iteration reads and writes
  \<open>DFT[ifreq]\<close> only, so the parallel loop computes what the sequential one does.
\<close>

fun FilonLagrange_outer :: "real list \<Rightarrow> real list \<Rightarrow> row list \<Rightarrow> nat list
    \<Rightarrow> complex fval list \<Rightarrow> error + complex fval list" where
  "FilonLagrange_outer freq Time coeffs [] DFT = Inr DFT"
| "FilonLagrange_outer freq Time coeffs (ifreq # ifreqs) DFT =
     (case FilonLagrange_inner freq Time coeffs ifreq (range2 0 (int (length Time) - 2)) 0 DFT of
        Inl e \<Rightarrow> Inl e
      | Inr DFT' \<Rightarrow> FilonLagrange_outer freq Time coeffs ifreqs DFT')"

definition FilonLagrange :: "complex fval list \<Rightarrow> real list \<Rightarrow> real list \<Rightarrow> row list
    \<Rightarrow> error + complex fval list" where
  "FilonLagrange DFT freq Time coeffs = FilonLagrange_outer freq Time coeffs [0..<length freq] DFT"

section \<open>Admittance and impedance (\<open>AdmFromQ\<close>, lines 91-118; \<open>Imp\<close>, line 207)\<close>

text \<open>
  \<open>beta\<close> is a global of the script; the model takes it as the parameter \<open>\<beta>\<close>, and
  the script's value is \<open>beta\<close> below.
\<close>

definition temperature :: real where
  "temperature = 298"

definition k_Boltzmann :: real where
  "k_Boltzmann = 13806485279 / 10 ^ 33"

definition beta :: real where
  "beta = 1 / (k_Boltzmann * temperature)"

fun adm_value :: "real \<Rightarrow> real \<Rightarrow> complex fval \<Rightarrow> real \<Rightarrow> complex fval" where
  "adm_value \<beta> ff (Fin F) q0 =
     Fin (of_real \<beta> * ((of_real ff ^ 2) * F + 1 * \<i> * of_real ff * of_real q0))"
| "adm_value \<beta> ff NonFin q0 = NonFin"

fun AdmFromQ_loop :: "real \<Rightarrow> real list \<Rightarrow> real list \<Rightarrow> complex fval list \<Rightarrow> nat list
    \<Rightarrow> complex fval list \<Rightarrow> error + complex fval list" where
  "AdmFromQ_loop \<beta> freq QACF DFT [] Adm = Inr Adm"
| "AdmFromQ_loop \<beta> freq QACF DFT (i # is) Adm =
     (if length freq \<le> i \<or> length DFT \<le> i \<or> QACF = [] \<or> length Adm \<le> i then Inl IndexError
      else AdmFromQ_loop \<beta> freq QACF DFT is
             (Adm[i := adm_value \<beta> (freq ! i) (DFT ! i) (QACF ! 0)]))"

definition zero_row :: row where
  "zero_row = (Fin 0, Fin 0, Fin 0)"

text \<open>Lines 112-114: the raw transform \<open>DFT\<close>; then the loop of lines 115-117.\<close>

definition AdmFromQ_DFT :: "real list \<Rightarrow> real list \<Rightarrow> real list \<Rightarrow> error + complex fval list" where
  "AdmFromQ_DFT Time QACF freq =
     (case LagrangeInterpol (replicate (length Time div 2) zero_row) Time QACF of
        Inl e \<Rightarrow> Inl e
      | Inr Coeffs \<Rightarrow> FilonLagrange (replicate (length freq) (Fin 0)) freq Time Coeffs)"

definition AdmFromQ :: "real \<Rightarrow> real list \<Rightarrow> real list \<Rightarrow> real list \<Rightarrow> error + complex fval list" where
  "AdmFromQ \<beta> Time QACF freq =
     (case AdmFromQ_DFT Time QACF freq of
        Inl e \<Rightarrow> Inl e
      | Inr DFT \<Rightarrow>
          AdmFromQ_loop \<beta> freq QACF DFT [0..<length freq] (replicate (length DFT) (Fin 0)))"

text \<open>
  \<open>Imp = 1/Adm\<close> is an elementwise NumPy division: it does not raise; the reciprocal of
  zero is an infinity or a NaN.
\<close>

fun recip :: "complex fval \<Rightarrow> complex fval" where
  "recip (Fin z) = (if z = 0 then NonFin else Fin (1 / z))"
| "recip NonFin = NonFin"

definition Imp :: "complex fval list \<Rightarrow> complex fval list" where
  "Imp Adm = map recip Adm"

section \<open>The frequency grid (lines 200-203)\<close>

text \<open>
  \<open>hif\<close>, \<open>lof\<close> and \<open>freq\<close> of the script, as functions of \<open>redTime\<close> and of the
  global \<open>nfreq\<close> (the parameter \<open>n\<close>); the script's \<open>freq\<close> is \<open>freq_grid nfreq redTime\<close>.
  The divisions are NumPy's: a zero divisor gives an infinity. \<open>log10\<close> of zero or of a
  negative number is an infinity or a NaN.
\<close>

definition nfreq :: nat where
  "nfreq = 100"

definition fdiv :: "real \<Rightarrow> real \<Rightarrow> real fval" where
  "fdiv x y = (if y = 0 then NonFin else Fin (x / y))"

fun flog10 :: "real fval \<Rightarrow> real fval" where
  "flog10 (Fin x) = (if x \<le> 0 then NonFin else Fin (log 10 x))"
| "flog10 NonFin = NonFin"

text \<open>
  \<open>numpy.linspace(start, stop, num)\<close>: \<open>arange(0, num) * step + start\<close> with
  \<open>step = (stop - start)/(num - 1)\<close>, the last element then set to \<open>stop\<close>; with
  \<open>num = 1\<close> the single element is \<open>0 * (stop - start) + start\<close>.
  \<open>logspace\<close> raises 10 to these powers.
\<close>

definition linspace :: "real fval \<Rightarrow> real fval \<Rightarrow> nat \<Rightarrow> real fval list" where
  "linspace start stop num =
     (let dv = num - 1;
          delta = fsub stop start;
          step = (if dv > 0 then map_fval (\<lambda>d. d / real dv) delta else delta);
          y = map (\<lambda>i. fadd (fmul (Fin (real i)) step) start) [0..<num]
      in if num > 1 then y[num - 1 := stop] else y)"

definition logspace :: "real fval \<Rightarrow> real fval \<Rightarrow> nat \<Rightarrow> real fval list" where
  "logspace start stop num = map (map_fval (\<lambda>y. 10 powr y)) (linspace start stop num)"

definition hif :: "real list \<Rightarrow> error + real fval" where
  "hif redTime = (if length redTime \<le> 1 then Inl IndexError else Inr (fdiv (2 * pi) (redTime ! 1 * 3)))"

definition lof :: "real list \<Rightarrow> error + real fval" where
  "lof redTime = (if redTime = [] then Inl IndexError else Inr (fdiv (2 * pi) (last redTime)))"

definition freq_grid :: "nat \<Rightarrow> real list \<Rightarrow> error + real fval list" where
  "freq_grid n redTime =
     (case hif redTime of
        Inl e \<Rightarrow> Inl e
      | Inr h \<Rightarrow>
          (case lof redTime of
             Inl e \<Rightarrow> Inl e
           | Inr l \<Rightarrow> Inr (logspace (flog10 l) (flog10 h) n)))"

section \<open>Notions used in the statements\<close>

text \<open>A coefficient array of finite numbers, as rows.\<close>

definition fin_row :: "real \<times> real \<times> real \<Rightarrow> row" where
  "fin_row r = (case r of (a, b, c) \<Rightarrow> (Fin a, Fin b, Fin c))"

text \<open>
  The summand as the specification writes it, and the sum over the segments
  \<open>(Time[2i], Time[2i+2])\<close>, \<open>i < (len(Time) - 1) // 2\<close>.
\<close>

definition spec_summand :: "complex \<Rightarrow> complex \<Rightarrow> complex \<Rightarrow> complex \<Rightarrow> complex \<Rightarrow> complex \<Rightarrow> complex" where
  "spec_summand \<omega> t1 t2 a b c =
     (1 / \<omega> ^ 3) *
       (exp (- \<i> * \<omega> * t2) * (a * (\<omega> * t2 * (2 + \<i> * \<omega> * t2) - 2 * \<i>)
                                 + \<omega> * (\<i> * b * \<omega> * t2 + b + \<i> * c * \<omega>))
        - \<i> * exp (- \<i> * \<omega> * t1) * (a * (- 2 + \<omega> * t1 * (\<omega> * t1 - 2 * \<i>))
                                     + \<omega> * (c * \<omega> + b * (\<omega> * t1 - \<i>))))"

definition segment_sum :: "real \<Rightarrow> real list \<Rightarrow> (real \<times> real \<times> real) list \<Rightarrow> complex" where
  "segment_sum ff Time cs =
     (\<Sum>i<(length Time - 1) div 2.
        case cs ! i of (a, b, c) \<Rightarrow>
          spec_summand (of_real ff) (of_real (Time ! (2 * i))) (of_real (Time ! (2 * i + 2)))
            (of_real a) (of_real b) (of_real c))"

text \<open>
  A primitive of \<open>t \<mapsto> (a t\<^sup>2 + b t + c) exp(-i \<omega> t)\<close>: by the fundamental theorem of
  calculus, the integral over \<open>[t1, t2]\<close> is its value at \<open>t2\<close> minus its value at \<open>t1\<close>.
\<close>

definition filon_prim :: "complex \<Rightarrow> complex \<Rightarrow> complex \<Rightarrow> complex \<Rightarrow> complex \<Rightarrow> complex" where
  "filon_prim \<omega> a b c z =
     (1 / \<omega> ^ 3) * (exp (- \<i> * \<omega> * z) *
        (a * (\<omega> * z * (2 + \<i> * \<omega> * z) - 2 * \<i>) + \<omega> * (\<i> * b * \<omega> * z + b + \<i> * c * \<omega>)))"

text \<open>
  The coefficients of the quadratic through \<open>(x0, y0)\<close>, \<open>(x1, y1)\<close>, \<open>(x2, y2)\<close> in
  the Lagrange basis, and the samples that lie on one line.
\<close>

definition lagrange_weight :: "real \<Rightarrow> real \<Rightarrow> real \<Rightarrow> real \<Rightarrow> real" where
  "lagrange_weight xj xk xl y = y / ((xj - xk) * (xj - xl))"

definition quad_a :: "real \<Rightarrow> real \<Rightarrow> real \<Rightarrow> real \<Rightarrow> real \<Rightarrow> real \<Rightarrow> real" where
  "quad_a x0 x1 x2 y0 y1 y2 =
     lagrange_weight x0 x1 x2 y0 + lagrange_weight x1 x0 x2 y1 + lagrange_weight x2 x0 x1 y2"

definition quad_b :: "real \<Rightarrow> real \<Rightarrow> real \<Rightarrow> real \<Rightarrow> real \<Rightarrow> real \<Rightarrow> real" where
  "quad_b x0 x1 x2 y0 y1 y2 =
     - (lagrange_weight x0 x1 x2 y0 * (x1 + x2)) + - (lagrange_weight x1 x0 x2 y1 * (x0 + x2))
       + - (lagrange_weight x2 x0 x1 y2 * (x0 + x1))"

definition quad_c :: "real \<Rightarrow> real \<Rightarrow> real \<Rightarrow> real \<Rightarrow> real \<Rightarrow> real \<Rightarrow> real" where
  "quad_c x0 x1 x2 y0 y1 y2 =
     lagrange_weight x0 x1 x2 y0 * x1 * x2 + lagrange_weight x1 x0 x2 y1 * x0 * x2
       + lagrange_weight x2 x0 x1 y2 * x0 * x1"

definition collinear :: "real \<Rightarrow> real \<Rightarrow> real \<Rightarrow> real \<Rightarrow> real \<Rightarrow> real \<Rightarrow> bool" where
  "collinear x0 x1 x2 y0 y1 y2 \<longleftrightarrow> (y1 - y0) * (x2 - x1) = (y2 - y1) * (x1 - x0)"

text \<open>
  The coefficients for segment \<open>i\<close>, whose samples are at \<open>2i\<close>, \<open>2i+1\<close>, \<open>2i+2\<close>,
  and the segments with two coinciding times.
\<close>

definition segment_coeffs :: "real list \<Rightarrow> real list \<Rightarrow> nat \<Rightarrow> real \<times> real \<times> real" where
  "segment_coeffs Time Signal i =
     (let x0 = Time ! (2 * i); x1 = Time ! (2 * i + 1); x2 = Time ! (2 * i + 2);
          y0 = Signal ! (2 * i); y1 = Signal ! (2 * i + 1); y2 = Signal ! (2 * i + 2)
      in (quad_a x0 x1 x2 y0 y1 y2, quad_b x0 x1 x2 y0 y1 y2, quad_c x0 x1 x2 y0 y1 y2))"

definition segment_degenerate :: "real list \<Rightarrow> nat \<Rightarrow> bool" where
  "segment_degenerate Time i =
     (Time ! (2 * i) = Time ! (2 * i + 1) \<or> Time ! (2 * i) = Time ! (2 * i + 2)
      \<or> Time ! (2 * i + 1) = Time ! (2 * i + 2))"

text \<open>The finite coefficient array of a series: one triple per segment, zero rows after.\<close>

definition series_coeffs :: "real list \<Rightarrow> real list \<Rightarrow> (real \<times> real \<times> real) list" where
  "series_coeffs Time Signal =
     map (segment_coeffs Time Signal) [0..<(length Time - 1) div 2]
     @ replicate (length Time div 2 - (length Time - 1) div 2) (0, 0, 0)"

definition segment_collinear :: "real list \<Rightarrow> real list \<Rightarrow> nat \<Rightarrow> bool" where
  "segment_collinear Time Signal i =
     collinear (Time ! (2 * i)) (Time ! (2 * i + 1)) (Time ! (2 * i + 2))
       (Signal ! (2 * i)) (Signal ! (2 * i + 1)) (Signal ! (2 * i + 2))"

text \<open>
  The row that the iteration \<open>ip\<close> of \<open>LagrangeInterpol\<close> computes from the samples
  \<open>ip-1\<close>, \<open>ip\<close>, \<open>ip+1\<close>, before it is stored.
\<close>

definition segment_row :: "real list \<Rightarrow> real list \<Rightarrow> nat \<Rightarrow> error + row" where
  "segment_row Time Signal ip =
     (case lagrange (slice Time (ip - 1) (ip + 2)) (slice Signal (ip - 1) (ip + 2)) of
        Inl e \<Rightarrow> Inl e
      | Inr coef \<Rightarrow> broadcast3 coef)"

text \<open>The value at \<open>t\<close> of the quadratic that a row stands for.\<close>

fun row_value :: "row \<Rightarrow> real \<Rightarrow> real fval" where
  "row_value (Fin a, Fin b, Fin c) t = Fin (a * t ^ 2 + b * t + c)"
| "row_value _ t = NonFin"

section \<open>Properties\<close>

subsection \<open>Claim C10: the window\<close>

lemma W_zero: "W \<epsilon> \<tau> 0 = 1"
proof -
  have "exp (- (\<epsilon> * \<tau>)) + 1 > 0"
    by (simp add: add_pos_pos)
  then show ?thesis
    by (simp add: W_def)
qed

lemma Window_loop_result:
  "\<forall>i\<in>set is. i < length ACF \<Longrightarrow>
   Window_loop \<epsilon> \<tau> ACF time is acc = Inr (acc @ map (\<lambda>i. ACF ! i * W \<epsilon> \<tau> (time ! i)) is)"
  by (induction "is" arbitrary: acc) simp_all

lemma Window_result:
  "length time \<le> length ACF \<Longrightarrow>
   Window \<epsilon> \<tau> ACF time = Inr (map (\<lambda>i. ACF ! i * W \<epsilon> \<tau> (time ! i)) [0..<length time])"
  by (simp add: Window_def Window_loop_result)

text \<open>
  Claim C10. For an ACF array and a time array of the same nonzero length with
  \<open>time[0] = 0\<close>, the window returns an array of the length of the time array whose
  element 0 is \<open>ACF[0]\<close>, whatever \<open>ep\<close> and \<open>tau\<close> are: the multiplier is 1 at
  \<open>t = 0\<close>. The zero-lag value that \<open>AdmFromQ\<close> reads as \<open>QACF[0]\<close> is unchanged.
\<close>

theorem C10_window_keeps_zero_lag:
  assumes "length ACF = length time" and "time \<noteq> []" and "time ! 0 = 0"
  shows "\<exists>w. Window \<epsilon> \<tau> ACF time = Inr w \<and> length w = length time \<and> w ! 0 = ACF ! 0
           \<and> W \<epsilon> \<tau> (time ! 0) = 1"
proof -
  have n: "0 < length time"
    using assms(2) by simp
  have "Window \<epsilon> \<tau> ACF time = Inr (map (\<lambda>i. ACF ! i * W \<epsilon> \<tau> (time ! i)) [0..<length time])"
    using assms(1) by (simp add: Window_result)
  moreover have "map (\<lambda>i. ACF ! i * W \<epsilon> \<tau> (time ! i)) [0..<length time] ! 0 = ACF ! 0"
    using n assms(3) by (simp add: W_zero)
  ultimately show ?thesis
    using assms(3) by (simp add: W_zero)
qed

theorem C10_window_keeps_zero_lag_witness:
  "length [2, 1 :: real] = length [0, 1 :: real] \<and> [0, 1 :: real] \<noteq> [] \<and> [0, 1 :: real] ! 0 = 0
   \<and> (\<exists>w. Window ep tau [2, 1] [0, 1] = Inr w \<and> length w = length [0, 1 :: real]
          \<and> w ! 0 = [2, 1] ! 0 \<and> W ep tau ([0, 1] ! 0) = 1)"
  using C10_window_keeps_zero_lag [of "[2, 1]" "[0, 1]" ep tau] by simp

subsection \<open>The quadrature\<close>

text \<open>
  The segments and nodes that the loops visit, and the transform for finite coefficients
  and frequencies other than zero in exact arithmetic: the summand of the code is the
  summand the specification writes, which is the difference of a primitive of
  \<open>(a t\<^sup>2 + b t + c) exp(-i \<omega> t)\<close> at the two ends of the segment. The doubles of the
  code lose that value where \<open>ff * t\<close> is small.
\<close>

lemma range2_segments: "range2 0 (int n - 2) = map (\<lambda>k. 2 * k) [0..<(n - 1) div 2]"
proof -
  have "nat ((int n - 2 - int 0 + 1) div 2) = (n - 1) div 2"
    by (cases "n = 0") (simp_all add: nat_div_distrib nat_diff_distrib)
  then show ?thesis
    by (simp add: range2_def)
qed

lemma range2_nodes: "range2 1 (int n - 1) = map (\<lambda>k. 1 + 2 * k) [0..<(n - 1) div 2]"
proof -
  have "nat ((int n - 1 - int 1 + 1) div 2) = (n - 1) div 2"
    by (cases "n = 0") (simp_all add: nat_div_distrib nat_diff_distrib)
  then show ?thesis
    by (simp add: range2_def)
qed

lemma filon_term_spec:
  "filon_term ff t1 t2 a b c =
     spec_summand (of_real ff) (of_real t1) (of_real t2) (of_real a) (of_real b) (of_real c)"
  by (simp add: filon_term_def spec_summand_def)

lemma filon_prim_deriv:
  assumes "\<omega> \<noteq> 0"
  shows "((\<lambda>z. filon_prim \<omega> a b c z) has_field_derivative
           ((a * z ^ 2 + b * z + c) * exp (- \<i> * \<omega> * z))) (at z)"
  unfolding filon_prim_def
  apply (rule derivative_eq_intros refl | simp)+
  using assms
  apply (simp add: field_simps power2_eq_square power3_eq_cube)
  done

lemma filon_prim_vector_deriv:
  assumes "ff \<noteq> 0"
  shows "((\<lambda>t. filon_prim (of_real ff) (of_real a) (of_real b) (of_real c) (of_real t))
            has_vector_derivative
          (of_real (a * t ^ 2 + b * t + c) * exp (- \<i> * of_real ff * of_real t))) (at t)"
proof -
  have "of_real ff \<noteq> (0::complex)"
    using assms by simp
  from has_vector_derivative_real_field [OF filon_prim_deriv [OF this]]
  show ?thesis
    by simp
qed

lemma spec_summand_prim:
  "spec_summand \<omega> t1 t2 a b c = filon_prim \<omega> a b c t2 - filon_prim \<omega> a b c t1"
  unfolding spec_summand_def filon_prim_def
  by (simp add: algebra_simps power2_eq_square)

lemma FilonLagrange_inner_result:
  assumes "ifreq < length freq" and "ifreq < length DFT"
    and "\<forall>it\<in>set its. it + 2 < length Time"
    and "ip + length its \<le> length coeffs"
  shows "FilonLagrange_inner freq Time coeffs ifreq its ip DFT =
     Inr (DFT[ifreq := foldl fadd (DFT ! ifreq)
        (map2 (\<lambda>it r. filon_summand (freq ! ifreq) (Time ! it) (Time ! (it + 2)) r)
           its (take (length its) (drop ip coeffs)))])"
  using assms
proof (induction its arbitrary: ip DFT)
  case Nil
  then show ?case by simp
next
  case (Cons it its)
  have ip: "ip < length coeffs"
    using Cons.prems(4) by simp
  have d: "drop ip coeffs = coeffs ! ip # drop (Suc ip) coeffs"
    using ip by (simp add: Cons_nth_drop_Suc)
  show ?case
    using Cons.prems ip
    by (simp add: Cons.IH d)
qed

lemma foldl_fadd_Fin:
  "foldl fadd (Fin (d::complex)) (map Fin zs) = Fin (d + sum_list zs)"
  by (induction zs arbitrary: d) (simp_all add: fadd_def add.assoc)

lemma segments_fin:
  assumes "n \<le> length cs" and "ff \<noteq> 0"
  shows "map2 (\<lambda>it r. filon_summand ff (Time ! it) (Time ! (it + 2)) r)
           (map (\<lambda>k. 2 * k) [0..<n]) (take (length (map (\<lambda>k. 2 * k) [0..<n])) (drop 0 (map fin_row cs)))
         = map Fin (map (\<lambda>i. case cs ! i of (a, b, c) \<Rightarrow>
              spec_summand (of_real ff) (of_real (Time ! (2 * i))) (of_real (Time ! (2 * i + 2)))
                (of_real a) (of_real b) (of_real c)) [0..<n])"
  using assms
  by (auto simp: list_eq_iff_nth_eq fin_row_def filon_term_spec split: prod.splits)

lemma FilonLagrange_inner_fin:
  assumes "ifreq < length freq" and "ifreq < length DFT" and "freq ! ifreq \<noteq> 0"
    and "(length Time - 1) div 2 \<le> length cs" and "DFT ! ifreq = Fin d"
  shows "FilonLagrange_inner freq Time (map fin_row cs) ifreq (range2 0 (int (length Time) - 2)) 0 DFT =
     Inr (DFT[ifreq := Fin (d + segment_sum (freq ! ifreq) Time cs)])"
proof -
  let ?n = "(length Time - 1) div 2"
  let ?its = "map (\<lambda>k. 2 * k) [0..<?n]"
  have b: "\<forall>it\<in>set ?its. it + 2 < length Time"
    by auto
  have l: "0 + length ?its \<le> length (map fin_row cs)"
    using assms(4) by simp
  have s: "sum_list (map (\<lambda>i. case cs ! i of (a, b, c) \<Rightarrow>
              spec_summand (of_real (freq ! ifreq)) (of_real (Time ! (2 * i)))
                (of_real (Time ! (2 * i + 2))) (of_real a) (of_real b) (of_real c)) [0..<?n])
           = segment_sum (freq ! ifreq) Time cs"
    by (simp add: segment_sum_def interv_sum_list_conv_sum_set_nat atLeast0LessThan)
  have "FilonLagrange_inner freq Time (map fin_row cs) ifreq ?its 0 DFT =
     Inr (DFT[ifreq := foldl fadd (DFT ! ifreq)
        (map2 (\<lambda>it r. filon_summand (freq ! ifreq) (Time ! it) (Time ! (it + 2)) r)
           ?its (take (length ?its) (drop 0 (map fin_row cs))))])"
    by (rule FilonLagrange_inner_result [OF assms(1,2) b l])
  also have "\<dots> = Inr (DFT[ifreq := Fin (d + segment_sum (freq ! ifreq) Time cs)])"
    unfolding segments_fin [OF assms(4,3)] assms(5) foldl_fadd_Fin s ..
  finally show ?thesis
    by (simp only: range2_segments)
qed

lemma FilonLagrange_outer_fin:
  assumes "\<forall>k\<in>set ks. k < length freq \<and> k < length DFT \<and> freq ! k \<noteq> 0 \<and> DFT ! k = Fin 0"
    and "distinct ks"
    and "(length Time - 1) div 2 \<le> length cs"
  shows "\<exists>F. FilonLagrange_outer freq Time (map fin_row cs) ks DFT = Inr F \<and> length F = length DFT
     \<and> (\<forall>k<length DFT. F ! k = (if k \<in> set ks then Fin (segment_sum (freq ! k) Time cs) else DFT ! k))"
  using assms(1,2)
proof (induction ks arbitrary: DFT)
  case Nil
  then show ?case by simp
next
  case (Cons k ks)
  let ?D = "DFT[k := Fin (0 + segment_sum (freq ! k) Time cs)]"
  have k: "k < length freq" "k < length DFT" "freq ! k \<noteq> 0" "DFT ! k = Fin 0"
    using Cons.prems(1) by simp_all
  have step: "FilonLagrange_inner freq Time (map fin_row cs) k (range2 0 (int (length Time) - 2)) 0 DFT
      = Inr ?D"
    by (rule FilonLagrange_inner_fin [OF k(1-3) assms(3) k(4)])
  have pre: "\<forall>j\<in>set ks. j < length freq \<and> j < length ?D \<and> freq ! j \<noteq> 0 \<and> ?D ! j = Fin 0"
    using Cons.prems by (auto simp: nth_list_update)
  have dist: "distinct ks"
    using Cons.prems(2) by simp
  obtain F where F: "FilonLagrange_outer freq Time (map fin_row cs) ks ?D = Inr F"
      "length F = length ?D"
      "\<forall>j<length ?D. F ! j = (if j \<in> set ks then Fin (segment_sum (freq ! j) Time cs) else ?D ! j)"
    using Cons.IH [OF pre dist] by blast
  have "\<forall>j<length DFT. F ! j =
      (if j \<in> set (k # ks) then Fin (segment_sum (freq ! j) Time cs) else DFT ! j)"
    using F(3) Cons.prems(2) k(2) by (auto simp: nth_list_update)
  then show ?case
    using step F(1,2) by simp
qed

lemma FilonLagrange_fin:
  assumes "\<forall>ff\<in>set freq. ff \<noteq> 0" and "(length Time - 1) div 2 \<le> length cs"
  shows "FilonLagrange (replicate (length freq) (Fin 0)) freq Time (map fin_row cs)
     = Inr (map (\<lambda>ff. Fin (segment_sum ff Time cs)) freq)"
proof -
  let ?Z = "replicate (length freq) (Fin (0::complex))"
  have pre: "\<forall>k\<in>set [0..<length freq]. k < length freq \<and> k < length ?Z \<and> freq ! k \<noteq> 0 \<and> ?Z ! k = Fin 0"
    using assms(1) by simp
  obtain F where F: "FilonLagrange_outer freq Time (map fin_row cs) [0..<length freq] ?Z = Inr F"
      "length F = length ?Z"
      "\<forall>k<length ?Z. F ! k = (if k \<in> set [0..<length freq] then Fin (segment_sum (freq ! k) Time cs) else ?Z ! k)"
    using FilonLagrange_outer_fin [OF pre distinct_upt assms(2)] by blast
  have "F = map (\<lambda>ff. Fin (segment_sum ff Time cs)) freq"
  proof (rule nth_equalityI)
    show "length F = length (map (\<lambda>ff. Fin (segment_sum ff Time cs)) freq)"
      using F(2) by simp
  next
    fix i assume "i < length F"
    then show "F ! i = map (\<lambda>ff. Fin (segment_sum ff Time cs)) freq ! i"
      using F(2,3) by simp
  qed
  then show ?thesis
    using F(1) by (simp add: FilonLagrange_def)
qed

subsection \<open>The library polynomial of three samples\<close>

text \<open>
  \<open>lagrange\<close> on three samples, step by step as the library computes it. For pairwise
  distinct times the sum of the three products is the quadratic through the samples,
  with its leading zeros stripped.
\<close>

lemma fadd_simps:
  "fadd (Fin a) (Fin b) = Fin (a + b)" "fadd NonFin y = NonFin" "fadd x NonFin = NonFin"
  by (simp_all add: fadd_def)

lemma fmul_simps:
  "fmul (Fin a) (Fin b) = Fin (a * b)" "fmul NonFin y = NonFin" "fmul x NonFin = NonFin"
  by (simp_all add: fmul_def)

lemma fadd_zero: "fadd x (Fin 0) = x" "fadd (Fin 0) x = x" for x :: "real fval"
  by (cases x; simp add: fadd_def)+

lemma poly1d_single: "poly1d [y] = [y]"
  by (simp add: poly1d_def)

lemma poly1d_lead: "a \<noteq> Fin 0 \<Longrightarrow> poly1d (a # cs) = a # cs"
  by (simp add: poly1d_def)

lemma poly1d_zero: "poly1d (Fin 0 # cs) = poly1d cs"
  by (simp add: poly1d_def)

lemma convolve_1_2: "convolve [y] [u, v] = [fmul y u, fmul y v]"
  by (simp add: convolve_def fsum_def upt_rec fadd_zero)

lemma convolve_2_2: "convolve [p, q] [u, v] = [fmul p u, fadd (fmul p v) (fmul q u), fmul q v]"
  by (simp add: convolve_def fsum_def upt_rec fadd_zero)

lemma factor: "fac \<noteq> 0 \<Longrightarrow> poly_div (poly1d [Fin 1, Fin (- xk)]) fac = [Fin (1 / fac), Fin (- xk / fac)]"
  by (simp add: poly_div_def poly1d_def)

lemma factor_zero: "poly_div (poly1d [Fin 1, Fin (- xk)]) 0 = [NonFin, NonFin]"
  by (simp add: poly_div_def poly1d_def)

lemma basis3:
  assumes "u \<noteq> 0" "u' \<noteq> 0"
  shows "polymul (polymul [Fin y] [Fin u, Fin v]) [Fin u', Fin v']
         = poly1d [Fin (y * u * u'), Fin (y * u * v' + y * v * u'), Fin (y * v * v')]"
  using assms
  by (cases "y = 0")
    (simp_all add: polymul_def poly1d_single poly1d_lead poly1d_zero convolve_1_2 convolve_2_2
      fadd_simps fmul_simps)

lemma basis3_zero_first:
  assumes "u' \<noteq> 0"
  shows "polymul (polymul [Fin y] [NonFin, NonFin]) [Fin u', Fin v'] = [NonFin, NonFin, NonFin]"
  using assms
  by (simp add: polymul_def poly1d_single poly1d_lead convolve_1_2 convolve_2_2
      fadd_simps fmul_simps)

lemma basis3_zero_both:
  "polymul (polymul [Fin y] [NonFin, NonFin]) [NonFin, NonFin] = [NonFin, NonFin, NonFin]"
  by (simp add: polymul_def poly1d_single poly1d_lead convolve_1_2 convolve_2_2
      fadd_simps fmul_simps)

lemma basis3_zero_second:
  assumes "u \<noteq> 0"
  shows "polymul (polymul [Fin y] [Fin u, Fin v]) [NonFin, NonFin]
         = (if y = 0 then [NonFin, NonFin] else [NonFin, NonFin, NonFin])"
  using assms
  by (simp add: polymul_def poly1d_single poly1d_lead poly1d_zero convolve_1_2 convolve_2_2
      fadd_simps fmul_simps)

lemma poly1d3_cases:
  obtains (full) "a0 \<noteq> Fin 0" "poly1d [a0, a1, a2] = [a0, a1, a2]"
  | (lin) "a0 = Fin 0" "a1 \<noteq> Fin 0" "poly1d [a0, a1, a2] = [a1, a2]"
  | (const) "a0 = Fin 0" "a1 = Fin 0" "poly1d [a0, a1, a2] = [a2]"
proof (cases "a0 = Fin 0")
  case False
  then show ?thesis
    using full by (simp add: poly1d_def)
next
  case a0: True
  show ?thesis
  proof (cases "a1 = Fin 0")
    case False
    then show ?thesis
      using lin a0 by (simp add: poly1d_def)
  next
    case True
    then show ?thesis
      using const a0 by (simp add: poly1d_def)
  qed
qed

lemma polyadd3:
  "polyadd (poly1d [a0, a1, a2]) (poly1d [b0, b1, b2]) = poly1d [fadd a0 b0, fadd a1 b1, fadd a2 b2]"
proof (cases a0 a1 a2 rule: poly1d3_cases)
  case full
  then show ?thesis
    by (cases b0 b1 b2 rule: poly1d3_cases) (simp_all add: polyadd_def fadd_zero)
next
  case lin
  then show ?thesis
    by (cases b0 b1 b2 rule: poly1d3_cases) (simp_all add: polyadd_def poly1d_zero fadd_zero fadd_simps)
next
  case const
  then show ?thesis
    by (cases b0 b1 b2 rule: poly1d3_cases) (simp_all add: polyadd_def poly1d_zero fadd_zero fadd_simps)
qed

lemma polyadd03:
  "polyadd (poly1d [Fin 0]) (poly1d [b0, b1, b2]) = poly1d [b0, b1, b2]"
  by (cases b0 b1 b2 rule: poly1d3_cases)
    (simp_all add: polyadd_def poly1d_single poly1d_zero fadd_zero fadd_simps)

lemma lagrange_pt3:
  assumes "xj \<noteq> xk" "xj \<noteq> xl"
  shows "polymul (polymul (poly1d [Fin y]) (poly_div (poly1d [Fin 1, Fin (- xk)]) (xj - xk)))
                 (poly_div (poly1d [Fin 1, Fin (- xl)]) (xj - xl))
         = poly1d [Fin (lagrange_weight xj xk xl y), Fin (- (lagrange_weight xj xk xl y * (xk + xl))),
                   Fin (lagrange_weight xj xk xl y * xk * xl)]"
proof -
  have "polymul (polymul [Fin y] [Fin (1 / (xj - xk)), Fin (- xk / (xj - xk))])
          [Fin (1 / (xj - xl)), Fin (- xl / (xj - xl))]
      = poly1d [Fin (y * (1 / (xj - xk)) * (1 / (xj - xl))),
                Fin (y * (1 / (xj - xk)) * (- xl / (xj - xl)) + y * (- xk / (xj - xk)) * (1 / (xj - xl))),
                Fin (y * (- xk / (xj - xk)) * (- xl / (xj - xl)))]"
    using assms by (intro basis3) simp_all
  moreover have "y * (1 / p) * (1 / q) = y / (p * q)" for p q :: real
    by simp
  moreover have "y * (1 / p) * (- xl / q) + y * (- xk / p) * (1 / q)
      = - (y / (p * q) * (xk + xl))" for p q :: real
    by (simp add: algebra_simps add_divide_distrib)
  moreover have "y * (- xk / p) * (- xl / q) = y / (p * q) * xk * xl" for p q :: real
    by simp
  ultimately show ?thesis
    using assms by (simp add: factor poly1d_single lagrange_weight_def)
qed

lemma lagrange_poly_unfold3:
  "lagrange_poly [x0, x1, x2] [y0, y1, y2]
      = polyadd (polyadd (polyadd (poly1d [Fin 0])
            (polymul (polymul (poly1d [Fin y0]) (poly_div (poly1d [Fin 1, Fin (- x1)]) (x0 - x1)))
                     (poly_div (poly1d [Fin 1, Fin (- x2)]) (x0 - x2))))
            (polymul (polymul (poly1d [Fin y1]) (poly_div (poly1d [Fin 1, Fin (- x0)]) (x1 - x0)))
                     (poly_div (poly1d [Fin 1, Fin (- x2)]) (x1 - x2))))
            (polymul (polymul (poly1d [Fin y2]) (poly_div (poly1d [Fin 1, Fin (- x0)]) (x2 - x0)))
                     (poly_div (poly1d [Fin 1, Fin (- x1)]) (x2 - x1)))"
  by (simp add: lagrange_poly_def upt_rec)

lemma lagrange_poly3:
  assumes "x0 \<noteq> x1" "x0 \<noteq> x2" "x1 \<noteq> x2"
  shows "lagrange_poly [x0, x1, x2] [y0, y1, y2]
         = poly1d [Fin (quad_a x0 x1 x2 y0 y1 y2), Fin (quad_b x0 x1 x2 y0 y1 y2),
                   Fin (quad_c x0 x1 x2 y0 y1 y2)]"
proof -
  have b0: "polymul (polymul (poly1d [Fin y0]) (poly_div (poly1d [Fin 1, Fin (- x1)]) (x0 - x1)))
                     (poly_div (poly1d [Fin 1, Fin (- x2)]) (x0 - x2))
     = poly1d [Fin (lagrange_weight x0 x1 x2 y0), Fin (- (lagrange_weight x0 x1 x2 y0 * (x1 + x2))),
               Fin (lagrange_weight x0 x1 x2 y0 * x1 * x2)]"
    using assms by (intro lagrange_pt3) simp_all
  have b1: "polymul (polymul (poly1d [Fin y1]) (poly_div (poly1d [Fin 1, Fin (- x0)]) (x1 - x0)))
                     (poly_div (poly1d [Fin 1, Fin (- x2)]) (x1 - x2))
     = poly1d [Fin (lagrange_weight x1 x0 x2 y1), Fin (- (lagrange_weight x1 x0 x2 y1 * (x0 + x2))),
               Fin (lagrange_weight x1 x0 x2 y1 * x0 * x2)]"
    using assms by (intro lagrange_pt3) simp_all
  have b2: "polymul (polymul (poly1d [Fin y2]) (poly_div (poly1d [Fin 1, Fin (- x0)]) (x2 - x0)))
                     (poly_div (poly1d [Fin 1, Fin (- x1)]) (x2 - x1))
     = poly1d [Fin (lagrange_weight x2 x0 x1 y2), Fin (- (lagrange_weight x2 x0 x1 y2 * (x0 + x1))),
               Fin (lagrange_weight x2 x0 x1 y2 * x0 * x1)]"
    using assms by (intro lagrange_pt3) simp_all
  show ?thesis
    unfolding lagrange_poly_unfold3 b0 b1 b2 polyadd03 polyadd3 fadd_simps
      quad_a_def quad_b_def quad_c_def ..
qed

lemma lagrange_weight_value:
  assumes "xj \<noteq> xk" "xj \<noteq> xl"
  shows "y = lagrange_weight xj xk xl y * ((xj - xk) * (xj - xl))"
  using assms by (simp add: lagrange_weight_def)

lemma quad_interpolates:
  assumes "x0 \<noteq> x1" "x0 \<noteq> x2" "x1 \<noteq> x2"
  shows "quad_a x0 x1 x2 y0 y1 y2 * x0 ^ 2 + quad_b x0 x1 x2 y0 y1 y2 * x0 + quad_c x0 x1 x2 y0 y1 y2 = y0"
    and "quad_a x0 x1 x2 y0 y1 y2 * x1 ^ 2 + quad_b x0 x1 x2 y0 y1 y2 * x1 + quad_c x0 x1 x2 y0 y1 y2 = y1"
    and "quad_a x0 x1 x2 y0 y1 y2 * x2 ^ 2 + quad_b x0 x1 x2 y0 y1 y2 * x2 + quad_c x0 x1 x2 y0 y1 y2 = y2"
proof -
  let ?A = "lagrange_weight x0 x1 x2 y0" and ?B = "lagrange_weight x1 x0 x2 y1"
    and ?C = "lagrange_weight x2 x0 x1 y2"
  have y0: "y0 = ?A * ((x0 - x1) * (x0 - x2))"
    using assms by (intro lagrange_weight_value) simp_all
  have y1: "y1 = ?B * ((x1 - x0) * (x1 - x2))"
    using assms by (intro lagrange_weight_value) simp_all
  have y2: "y2 = ?C * ((x2 - x0) * (x2 - x1))"
    using assms by (intro lagrange_weight_value) simp_all
  show "quad_a x0 x1 x2 y0 y1 y2 * x0 ^ 2 + quad_b x0 x1 x2 y0 y1 y2 * x0 + quad_c x0 x1 x2 y0 y1 y2 = y0"
    unfolding quad_a_def quad_b_def quad_c_def
    by (subst (4) y0) (simp add: algebra_simps power2_eq_square)
  show "quad_a x0 x1 x2 y0 y1 y2 * x1 ^ 2 + quad_b x0 x1 x2 y0 y1 y2 * x1 + quad_c x0 x1 x2 y0 y1 y2 = y1"
    unfolding quad_a_def quad_b_def quad_c_def
    by (subst (4) y1) (simp add: algebra_simps power2_eq_square)
  show "quad_a x0 x1 x2 y0 y1 y2 * x2 ^ 2 + quad_b x0 x1 x2 y0 y1 y2 * x2 + quad_c x0 x1 x2 y0 y1 y2 = y2"
    unfolding quad_a_def quad_b_def quad_c_def
    by (subst (4) y2) (simp add: algebra_simps power2_eq_square)
qed

lemma quad_unique:
  fixes x0 x1 x2 :: real
  assumes "x0 \<noteq> x1" "x0 \<noteq> x2" "x1 \<noteq> x2"
    and "a * x0 ^ 2 + b * x0 + c = a' * x0 ^ 2 + b' * x0 + c'"
    and "a * x1 ^ 2 + b * x1 + c = a' * x1 ^ 2 + b' * x1 + c'"
    and "a * x2 ^ 2 + b * x2 + c = a' * x2 ^ 2 + b' * x2 + c'"
  shows "a = a' \<and> b = b' \<and> c = c'"
proof -
  define d e f where "d = a - a'" and "e = b - b'" and "f = c - c'"
  have z0: "d * x0 ^ 2 + e * x0 + f = 0" and z1: "d * x1 ^ 2 + e * x1 + f = 0"
    and z2: "d * x2 ^ 2 + e * x2 + f = 0"
    using assms(4-6) by (simp_all add: d_def e_def f_def algebra_simps)
  have "(x0 - x1) * (d * (x0 + x1) + e) = 0"
    using z0 z1 by (simp add: algebra_simps power2_eq_square)
  then have s01: "d * (x0 + x1) + e = 0"
    using assms(1) by simp
  have "(x0 - x2) * (d * (x0 + x2) + e) = 0"
    using z0 z2 by (simp add: algebra_simps power2_eq_square)
  then have s02: "d * (x0 + x2) + e = 0"
    using assms(2) by simp
  have "d * (x1 - x2) = (d * (x0 + x1) + e) - (d * (x0 + x2) + e)"
    by (simp add: algebra_simps)
  then have "d * (x1 - x2) = 0"
    by (simp only: s01 s02 diff_self)
  then have d: "d = 0"
    using assms(3) by simp
  then have e: "e = 0"
    using s01 by simp
  then have "f = 0"
    using z0 d by simp
  then show ?thesis
    using d e by (simp add: d_def e_def f_def)
qed

lemma quad_a_collinear:
  assumes "x0 \<noteq> x1" "x0 \<noteq> x2" "x1 \<noteq> x2"
  shows "quad_a x0 x1 x2 y0 y1 y2 = 0 \<longleftrightarrow> collinear x0 x1 x2 y0 y1 y2"
proof -
  let ?D = "(x0 - x1) * (x0 - x2) * (x1 - x2)"
  have D: "?D \<noteq> 0"
    using assms by simp
  have cancel: "y / p * (p * r) = y * r" if "p \<noteq> 0" for y p r :: real
    using that by simp
  have d0: "?D = ((x0 - x1) * (x0 - x2)) * (x1 - x2)"
    by simp
  have d1: "?D = ((x1 - x0) * (x1 - x2)) * (- (x0 - x2))"
    by (simp add: algebra_simps)
  have d2: "?D = ((x2 - x0) * (x2 - x1)) * (x0 - x1)"
    by (simp add: algebra_simps)
  have w0: "lagrange_weight x0 x1 x2 y0 * ?D = y0 * (x1 - x2)"
    unfolding lagrange_weight_def by (subst d0, rule cancel) (use assms in simp)
  have p1: "(x1 - x0) * (x1 - x2) \<noteq> 0"
    using assms by simp
  have w1: "lagrange_weight x1 x0 x2 y1 * ?D = y1 * (- (x0 - x2))"
    unfolding lagrange_weight_def by (subst d1) (rule cancel [OF p1])
  have w2: "lagrange_weight x2 x0 x1 y2 * ?D = y2 * (x0 - x1)"
    unfolding lagrange_weight_def by (subst d2, rule cancel) (use assms in simp)
  have "quad_a x0 x1 x2 y0 y1 y2 * ?D = y0 * (x1 - x2) + y1 * (- (x0 - x2)) + y2 * (x0 - x1)"
    unfolding quad_a_def distrib_right w0 w1 w2 ..
  also have "\<dots> = (y1 - y0) * (x2 - x1) - (y2 - y1) * (x1 - x0)"
    by (simp add: algebra_simps)
  finally have "quad_a x0 x1 x2 y0 y1 y2 * ?D = (y1 - y0) * (x2 - x1) - (y2 - y1) * (x1 - x0)" .
  then have "quad_a x0 x1 x2 y0 y1 y2 = 0 \<longleftrightarrow> (y1 - y0) * (x2 - x1) - (y2 - y1) * (x1 - x0) = 0"
    using D by (metis mult_eq_0_iff)
  then show ?thesis
    by (simp add: collinear_def)
qed

lemma lagrange3:
  assumes "x0 \<noteq> x1" "x0 \<noteq> x2" "x1 \<noteq> x2"
  shows "lagrange [x0, x1, x2] [y0, y1, y2]
         = Inr (poly1d [Fin (quad_a x0 x1 x2 y0 y1 y2), Fin (quad_b x0 x1 x2 y0 y1 y2),
                        Fin (quad_c x0 x1 x2 y0 y1 y2)])"
  using assms by (simp add: lagrange_def lagrange_poly3)

text \<open>Two coinciding times: the polynomials with a factor divided by zero.\<close>

lemma nonfin3: "poly1d [NonFin, NonFin, NonFin] = [NonFin, NonFin, NonFin]"
  by (simp add: poly1d_def)

lemma nonfin2: "poly1d [Fin 0, NonFin, NonFin] = [NonFin, NonFin]"
  by (simp add: poly1d_def)

lemma pt_zero_first:
  "polymul (polymul (poly1d [Fin y]) (poly_div (poly1d [Fin 1, Fin (- xk)]) (xj - xj)))
           (poly_div (poly1d [Fin 1, Fin (- xl)]) (xj - xl))
   = poly1d [NonFin, NonFin, NonFin]"
proof (cases "xj = xl")
  case True
  then show ?thesis
    by (simp add: poly1d_single factor_zero basis3_zero_both nonfin3)
next
  case False
  then show ?thesis
    by (simp add: poly1d_single factor_zero factor basis3_zero_first nonfin3)
qed

lemma pt_zero_second:
  assumes "xj \<noteq> xk"
  shows "polymul (polymul (poly1d [Fin y]) (poly_div (poly1d [Fin 1, Fin (- xk)]) (xj - xk)))
           (poly_div (poly1d [Fin 1, Fin (- xl)]) (xj - xj))
   = poly1d [if y = 0 then Fin 0 else NonFin, NonFin, NonFin]"
  using assms by (simp add: poly1d_single factor_zero factor basis3_zero_second nonfin3 nonfin2)

lemma lagrange_poly3_first_pair:
  "lagrange_poly [x, x, x2] [y0, y1, y2] = [NonFin, NonFin, NonFin]"
proof -
  have p0: "polymul (polymul (poly1d [Fin y0]) (poly_div (poly1d [Fin 1, Fin (- x)]) (x - x)))
                     (poly_div (poly1d [Fin 1, Fin (- x2)]) (x - x2))
      = poly1d [NonFin, NonFin, NonFin]"
    by (rule pt_zero_first)
  have p1: "polymul (polymul (poly1d [Fin y1]) (poly_div (poly1d [Fin 1, Fin (- x)]) (x - x)))
                     (poly_div (poly1d [Fin 1, Fin (- x2)]) (x - x2))
      = poly1d [NonFin, NonFin, NonFin]"
    by (rule pt_zero_first)
  obtain e0 e1 e2 where p2: "polymul (polymul (poly1d [Fin y2]) (poly_div (poly1d [Fin 1, Fin (- x)]) (x2 - x)))
                     (poly_div (poly1d [Fin 1, Fin (- x)]) (x2 - x))
      = poly1d [e0, e1, e2]"
  proof (cases "x2 = x")
    case True
    then show ?thesis
      using that pt_zero_first [of y2 x x x] by blast
  next
    case False
    then show ?thesis
      using that lagrange_pt3 [of x2 x x y2] by blast
  qed
  show ?thesis
    unfolding lagrange_poly_unfold3 p0 p1 p2 polyadd03 polyadd3 fadd_simps by (rule nonfin3)
qed

lemma lagrange_poly3_outer_pair:
  assumes "x \<noteq> x1"
  shows "lagrange_poly [x, x1, x] [y0, y1, y2] = [NonFin, NonFin, NonFin]"
proof -
  have p0: "polymul (polymul (poly1d [Fin y0]) (poly_div (poly1d [Fin 1, Fin (- x1)]) (x - x1)))
                     (poly_div (poly1d [Fin 1, Fin (- x)]) (x - x))
      = poly1d [if y0 = 0 then Fin 0 else NonFin, NonFin, NonFin]"
    using assms by (rule pt_zero_second)
  have p1: "polymul (polymul (poly1d [Fin y1]) (poly_div (poly1d [Fin 1, Fin (- x)]) (x1 - x)))
                     (poly_div (poly1d [Fin 1, Fin (- x)]) (x1 - x))
      = poly1d [Fin (lagrange_weight x1 x x y1), Fin (- (lagrange_weight x1 x x y1 * (x + x))),
                Fin (lagrange_weight x1 x x y1 * x * x)]"
    using assms by (intro lagrange_pt3) simp_all
  have p2: "polymul (polymul (poly1d [Fin y2]) (poly_div (poly1d [Fin 1, Fin (- x)]) (x - x)))
                     (poly_div (poly1d [Fin 1, Fin (- x1)]) (x - x1))
      = poly1d [NonFin, NonFin, NonFin]"
    by (rule pt_zero_first)
  show ?thesis
    unfolding lagrange_poly_unfold3 p0 p1 p2 polyadd03 polyadd3 fadd_simps by (rule nonfin3)
qed

lemma lagrange_poly3_last_pair:
  assumes "x0 \<noteq> x"
  shows "lagrange_poly [x0, x, x] [y0, y1, y2]
     = (if y1 = 0 \<and> y2 = 0
        then (if y0 = 0 then [NonFin, NonFin]
              else [Fin (y0 / ((x0 - x) * (x0 - x))), NonFin, NonFin])
        else [NonFin, NonFin, NonFin])"
proof -
  have p0: "polymul (polymul (poly1d [Fin y0]) (poly_div (poly1d [Fin 1, Fin (- x)]) (x0 - x)))
                     (poly_div (poly1d [Fin 1, Fin (- x)]) (x0 - x))
      = poly1d [Fin (lagrange_weight x0 x x y0), Fin (- (lagrange_weight x0 x x y0 * (x + x))),
                Fin (lagrange_weight x0 x x y0 * x * x)]"
    using assms by (intro lagrange_pt3) simp_all
  have p1: "polymul (polymul (poly1d [Fin y1]) (poly_div (poly1d [Fin 1, Fin (- x0)]) (x - x0)))
                     (poly_div (poly1d [Fin 1, Fin (- x)]) (x - x))
      = poly1d [if y1 = 0 then Fin 0 else NonFin, NonFin, NonFin]"
    using assms by (intro pt_zero_second) simp
  have p2: "polymul (polymul (poly1d [Fin y2]) (poly_div (poly1d [Fin 1, Fin (- x0)]) (x - x0)))
                     (poly_div (poly1d [Fin 1, Fin (- x)]) (x - x))
      = poly1d [if y2 = 0 then Fin 0 else NonFin, NonFin, NonFin]"
    using assms by (intro pt_zero_second) simp
  have "lagrange_poly [x0, x, x] [y0, y1, y2]
      = poly1d [fadd (fadd (Fin (lagrange_weight x0 x x y0)) (if y1 = 0 then Fin 0 else NonFin))
                  (if y2 = 0 then Fin 0 else NonFin), NonFin, NonFin]"
    unfolding lagrange_poly_unfold3 p0 p1 p2 polyadd03 polyadd3 fadd_simps ..
  moreover have "lagrange_weight x0 x x y0 = 0 \<longleftrightarrow> y0 = 0"
    using assms by (simp add: lagrange_weight_def)
  ultimately show ?thesis
    by (simp add: fadd_simps poly1d_def lagrange_weight_def)
qed

text \<open>
  What \<open>lagrange\<close> returns for three samples with two coinciding times: every
  coefficient is an infinity or a NaN, except that for \<open>x1 = x2\<close> and
  \<open>y1 = y2 = 0\<close> the leading coefficient is the finite \<open>y0 / (x0 - x1)\<^sup>2\<close>, which
  \<open>poly1d\<close> strips when it is zero.
\<close>

lemma lagrange3_degenerate:
  assumes "x0 = x1 \<or> x0 = x2 \<or> x1 = x2"
  shows "lagrange [x0, x1, x2] [y0, y1, y2]
     = Inr (if x0 \<noteq> x1 \<and> x0 \<noteq> x2 \<and> y1 = 0 \<and> y2 = 0
            then (if y0 = 0 then [NonFin, NonFin]
                  else [Fin (y0 / ((x0 - x1) * (x0 - x2))), NonFin, NonFin])
            else [NonFin, NonFin, NonFin])"
proof (cases "x0 = x1")
  case True
  then show ?thesis
    by (simp add: lagrange_def lagrange_poly3_first_pair)
next
  case n01: False
  show ?thesis
  proof (cases "x0 = x2")
    case True
    then show ?thesis
      using n01 lagrange_poly3_outer_pair [of x0 x1 y0 y1 y2] by (simp add: lagrange_def)
  next
    case False
    then have "x1 = x2"
      using assms n01 by simp
    then show ?thesis
      using n01 lagrange_poly3_last_pair [of x0 x1 y0 y1 y2] by (simp add: lagrange_def)
  qed
qed

lemma slice3:
  assumes "i + 2 < length xs"
  shows "slice xs i (i + 3) = [xs ! i, xs ! (i + 1), xs ! (i + 2)]"
proof -
  have "take 3 (drop i xs) = [xs ! i, xs ! (i + 1), xs ! (i + 2)]"
    using assms by (simp add: list_eq_iff_nth_eq less_Suc_eq numeral_3_eq_3 add.commute)
  then show ?thesis
    by (simp add: slice_def)
qed

subsection \<open>The interpolation loop\<close>

text \<open>
  Iteration \<open>ip\<close> of the loop writes the row \<open>ipp = (ip - 1) / 2\<close> and no other, so
  the call returns exactly the array whose first rows are the rows of the segments, in
  order, and it raises what the first failing segment raises.
\<close>

lemma LagrangeInterpol_loop_step:
  assumes "ipp < length coeffs"
  shows "LagrangeInterpol_loop Time Signal (ip # ips) ipp coeffs =
     (case segment_row Time Signal ip of
        Inl e \<Rightarrow> Inl e
      | Inr r \<Rightarrow> LagrangeInterpol_loop Time Signal ips (ipp + 1) (coeffs[ipp := r]))"
  using assms by (simp add: segment_row_def assign_row_def split: sum.splits)

lemma LagrangeInterpol_loop_iff:
  assumes "ipp + length ips \<le> length coeffs"
  shows "LagrangeInterpol_loop Time Signal ips ipp coeffs = Inr R \<longleftrightarrow>
     (\<exists>rs. list_all2 (\<lambda>ip r. segment_row Time Signal ip = Inr r) ips rs
           \<and> R = take ipp coeffs @ rs @ drop (ipp + length ips) coeffs)"
  using assms
proof (induction ips arbitrary: ipp coeffs)
  case Nil
  then show ?case by auto
next
  case (Cons ip ips)
  have ipp: "ipp < length coeffs"
    using Cons.prems by simp
  show ?case
  proof (cases "segment_row Time Signal ip")
    case (Inl e)
    then show ?thesis
      by (simp add: LagrangeInterpol_loop_step [OF ipp] list_all2_Cons1
          del: LagrangeInterpol_loop.simps)
  next
    case (Inr r)
    have t: "take (ipp + 1) (coeffs[ipp := r]) = take ipp coeffs @ [r]"
      using ipp by (simp add: take_Suc_conv_app_nth)
    have d: "drop (ipp + 1 + length ips) (coeffs[ipp := r]) = drop (ipp + length (ip # ips)) coeffs"
      by simp
    have "LagrangeInterpol_loop Time Signal (ip # ips) ipp coeffs = Inr R \<longleftrightarrow>
        LagrangeInterpol_loop Time Signal ips (ipp + 1) (coeffs[ipp := r]) = Inr R"
      using Inr by (simp add: LagrangeInterpol_loop_step [OF ipp] del: LagrangeInterpol_loop.simps)
    also have "\<dots> \<longleftrightarrow> (\<exists>rs. list_all2 (\<lambda>ip r. segment_row Time Signal ip = Inr r) ips rs
           \<and> R = take (ipp + 1) (coeffs[ipp := r]) @ rs
                 @ drop (ipp + 1 + length ips) (coeffs[ipp := r]))"
      using Cons.prems by (intro Cons.IH) simp
    also have "\<dots> \<longleftrightarrow> (\<exists>rs. list_all2 (\<lambda>ip r. segment_row Time Signal ip = Inr r) ips rs
           \<and> R = take ipp coeffs @ (r # rs) @ drop (ipp + length (ip # ips)) coeffs)"
      unfolding t d by simp
    also have "\<dots> \<longleftrightarrow> (\<exists>rs. list_all2 (\<lambda>ip r. segment_row Time Signal ip = Inr r) (ip # ips) rs
           \<and> R = take ipp coeffs @ rs @ drop (ipp + length (ip # ips)) coeffs)"
    proof
      assume "\<exists>rs. list_all2 (\<lambda>ip r. segment_row Time Signal ip = Inr r) ips rs
           \<and> R = take ipp coeffs @ (r # rs) @ drop (ipp + length (ip # ips)) coeffs"
      then obtain rs where "list_all2 (\<lambda>ip r. segment_row Time Signal ip = Inr r) ips rs"
          "R = take ipp coeffs @ (r # rs) @ drop (ipp + length (ip # ips)) coeffs"
        by blast
      then have "list_all2 (\<lambda>ip r. segment_row Time Signal ip = Inr r) (ip # ips) (r # rs)
           \<and> R = take ipp coeffs @ (r # rs) @ drop (ipp + length (ip # ips)) coeffs"
        using Inr by simp
      then show "\<exists>rs. list_all2 (\<lambda>ip r. segment_row Time Signal ip = Inr r) (ip # ips) rs
           \<and> R = take ipp coeffs @ rs @ drop (ipp + length (ip # ips)) coeffs"
        by (rule exI)
    next
      assume "\<exists>rs. list_all2 (\<lambda>ip r. segment_row Time Signal ip = Inr r) (ip # ips) rs
           \<and> R = take ipp coeffs @ rs @ drop (ipp + length (ip # ips)) coeffs"
      then obtain rs' where rs': "list_all2 (\<lambda>ip r. segment_row Time Signal ip = Inr r) (ip # ips) rs'"
          "R = take ipp coeffs @ rs' @ drop (ipp + length (ip # ips)) coeffs"
        by blast
      then obtain z rs where z: "rs' = z # rs" "segment_row Time Signal ip = Inr z"
          "list_all2 (\<lambda>ip r. segment_row Time Signal ip = Inr r) ips rs"
        by (auto simp: list_all2_Cons1)
      have "z = r"
        using z(2) Inr by simp
      then have "list_all2 (\<lambda>ip r. segment_row Time Signal ip = Inr r) ips rs
           \<and> R = take ipp coeffs @ (r # rs) @ drop (ipp + length (ip # ips)) coeffs"
        using z rs'(2) by simp
      then show "\<exists>rs. list_all2 (\<lambda>ip r. segment_row Time Signal ip = Inr r) ips rs
           \<and> R = take ipp coeffs @ (r # rs) @ drop (ipp + length (ip # ips)) coeffs"
        by (rule exI)
    qed
    finally show ?thesis .
  qed
qed

lemma LagrangeInterpol_iff:
  "LagrangeInterpol (replicate (length Time div 2) zero_row) Time Signal = Inr R \<longleftrightarrow>
     length R = length Time div 2
     \<and> (\<forall>i<(length Time - 1) div 2. segment_row Time Signal (1 + 2 * i) = Inr (R ! i))
     \<and> (\<forall>i. (length Time - 1) div 2 \<le> i \<and> i < length Time div 2 \<longrightarrow> R ! i = zero_row)"
proof -
  let ?n = "(length Time - 1) div 2" and ?m = "length Time div 2"
  let ?ips = "map (\<lambda>k. 1 + 2 * k) [0..<?n]"
  have nm: "?n \<le> ?m"
    by simp
  have "LagrangeInterpol (replicate ?m zero_row) Time Signal = Inr R \<longleftrightarrow>
      (\<exists>rs. list_all2 (\<lambda>ip r. segment_row Time Signal ip = Inr r) ?ips rs
           \<and> R = take 0 (replicate ?m zero_row) @ rs @ drop (0 + length ?ips) (replicate ?m zero_row))"
    unfolding LagrangeInterpol_def range2_nodes
    by (rule LagrangeInterpol_loop_iff) simp
  also have "\<dots> \<longleftrightarrow> (\<exists>rs. length rs = ?n \<and> (\<forall>i<?n. segment_row Time Signal (1 + 2 * i) = Inr (rs ! i))
           \<and> R = rs @ replicate (?m - ?n) zero_row)"
    by (auto simp: list_all2_conv_all_nth)
  also have "\<dots> \<longleftrightarrow> length R = ?m
     \<and> (\<forall>i<?n. segment_row Time Signal (1 + 2 * i) = Inr (R ! i))
     \<and> (\<forall>i. ?n \<le> i \<and> i < ?m \<longrightarrow> R ! i = zero_row)"
  proof
    assume "\<exists>rs. length rs = ?n \<and> (\<forall>i<?n. segment_row Time Signal (1 + 2 * i) = Inr (rs ! i))
           \<and> R = rs @ replicate (?m - ?n) zero_row"
    then obtain rs where rs: "length rs = ?n"
        "\<forall>i<?n. segment_row Time Signal (1 + 2 * i) = Inr (rs ! i)"
        "R = rs @ replicate (?m - ?n) zero_row"
      by blast
    show "length R = ?m
     \<and> (\<forall>i<?n. segment_row Time Signal (1 + 2 * i) = Inr (R ! i))
     \<and> (\<forall>i. ?n \<le> i \<and> i < ?m \<longrightarrow> R ! i = zero_row)"
      using rs nm by (auto simp: nth_append)
  next
    assume R: "length R = ?m
     \<and> (\<forall>i<?n. segment_row Time Signal (1 + 2 * i) = Inr (R ! i))
     \<and> (\<forall>i. ?n \<le> i \<and> i < ?m \<longrightarrow> R ! i = zero_row)"
    have "R = take ?n R @ replicate (?m - ?n) zero_row"
    proof (rule nth_equalityI)
      show "length R = length (take ?n R @ replicate (?m - ?n) zero_row)"
        using R nm by simp
    next
      fix i assume "i < length R"
      then show "R ! i = (take ?n R @ replicate (?m - ?n) zero_row) ! i"
        using R nm by (auto simp: nth_append)
    qed
    moreover have "length (take ?n R) = ?n"
      using R nm by simp
    moreover have "\<forall>i<?n. segment_row Time Signal (1 + 2 * i) = Inr (take ?n R ! i)"
      using R by simp
    ultimately show "\<exists>rs. length rs = ?n \<and> (\<forall>i<?n. segment_row Time Signal (1 + 2 * i) = Inr (rs ! i))
           \<and> R = rs @ replicate (?m - ?n) zero_row"
      by blast
  qed
  finally show ?thesis .
qed

lemma segment_row_three:
  assumes "2 * i + 2 < length Time" and "length Time \<le> length Signal"
  shows "segment_row Time Signal (1 + 2 * i)
     = (case lagrange [Time ! (2 * i), Time ! (2 * i + 1), Time ! (2 * i + 2)]
                      [Signal ! (2 * i), Signal ! (2 * i + 1), Signal ! (2 * i + 2)] of
          Inl e \<Rightarrow> Inl e
        | Inr coef \<Rightarrow> broadcast3 coef)"
proof -
  have e: "1 + 2 * i - 1 = 2 * i" "1 + 2 * i + 2 = 2 * i + 3"
    by simp_all
  have sT: "slice Time (1 + 2 * i - 1) (1 + 2 * i + 2)
      = [Time ! (2 * i), Time ! (2 * i + 1), Time ! (2 * i + 2)]"
    unfolding e using assms(1) by (intro slice3) simp
  have sS: "slice Signal (1 + 2 * i - 1) (1 + 2 * i + 2)
      = [Signal ! (2 * i), Signal ! (2 * i + 1), Signal ! (2 * i + 2)]"
    unfolding e using assms(1,2) by (intro slice3) simp
  show ?thesis
    unfolding segment_row_def sT sS ..
qed

lemma LagrangeInterpol_single:
  "LagrangeInterpol [zero_row] [x0, x1, x2] [y0, y1, y2]
     = (case lagrange [x0, x1, x2] [y0, y1, y2] of
          Inl e \<Rightarrow> Inl e
        | Inr coef \<Rightarrow> (case broadcast3 coef of Inl e \<Rightarrow> Inl e | Inr r \<Rightarrow> Inr [r]))"
proof -
  have r: "range2 1 (int (length [x0, x1, x2]) - 1) = [1]"
    by (simp add: range2_def)
  have s: "slice [x0, x1, x2] (1 - 1) (1 + 2) = [x0, x1, x2]"
      "slice [y0, y1, y2] (1 - 1) (1 + 2) = [y0, y1, y2]"
    by (simp_all add: slice_def)
  have "segment_row [x0, x1, x2] [y0, y1, y2] 1
      = (case lagrange [x0, x1, x2] [y0, y1, y2] of Inl e \<Rightarrow> Inl e | Inr coef \<Rightarrow> broadcast3 coef)"
    unfolding segment_row_def s ..
  moreover have "LagrangeInterpol [zero_row] [x0, x1, x2] [y0, y1, y2]
      = (case segment_row [x0, x1, x2] [y0, y1, y2] 1 of
           Inl e \<Rightarrow> Inl e
         | Inr r \<Rightarrow> LagrangeInterpol_loop [x0, x1, x2] [y0, y1, y2] [] (0 + 1) ([zero_row][0 := r]))"
    unfolding LagrangeInterpol_def r by (rule LagrangeInterpol_loop_step) simp
  ultimately show ?thesis
    by (simp split: sum.splits)
qed

lemma LagrangeInterpol_segment:
  assumes "2 * i + 2 < length Time" and "length Time \<le> length Signal"
  shows "LagrangeInterpol [zero_row] (slice Time (2 * i) (2 * i + 3)) (slice Signal (2 * i) (2 * i + 3))
           = Inr [r]
         \<longleftrightarrow> segment_row Time Signal (1 + 2 * i) = Inr r"
proof -
  have sT: "slice Time (2 * i) (2 * i + 3) = [Time ! (2 * i), Time ! (2 * i + 1), Time ! (2 * i + 2)]"
    using assms(1) by (intro slice3) simp
  have sS: "slice Signal (2 * i) (2 * i + 3)
      = [Signal ! (2 * i), Signal ! (2 * i + 1), Signal ! (2 * i + 2)]"
    using assms(1,2) by (intro slice3) simp
  show ?thesis
    unfolding sT sS LagrangeInterpol_single segment_row_three [OF assms]
    by (simp split: sum.splits)
qed

lemma segment_row_fin:
  assumes "2 * i + 2 < length Time" and "length Time \<le> length Signal"
    and "\<not> segment_degenerate Time i" and "\<not> segment_collinear Time Signal i"
  shows "segment_row Time Signal (1 + 2 * i) = Inr (fin_row (segment_coeffs Time Signal i))"
proof -
  let ?x0 = "Time ! (2 * i)" and ?x1 = "Time ! (2 * i + 1)" and ?x2 = "Time ! (2 * i + 2)"
  let ?y0 = "Signal ! (2 * i)" and ?y1 = "Signal ! (2 * i + 1)" and ?y2 = "Signal ! (2 * i + 2)"
  let ?a = "quad_a ?x0 ?x1 ?x2 ?y0 ?y1 ?y2" and ?b = "quad_b ?x0 ?x1 ?x2 ?y0 ?y1 ?y2"
    and ?c = "quad_c ?x0 ?x1 ?x2 ?y0 ?y1 ?y2"
  have d: "?x0 \<noteq> ?x1" "?x0 \<noteq> ?x2" "?x1 \<noteq> ?x2"
    using assms(3) by (simp_all add: segment_degenerate_def)
  have "\<not> collinear ?x0 ?x1 ?x2 ?y0 ?y1 ?y2"
    using assms(4) by (simp add: segment_collinear_def)
  then have a: "?a \<noteq> 0"
    using quad_a_collinear [OF d, of ?y0 ?y1 ?y2] by simp
  have "poly1d [Fin ?a, Fin ?b, Fin ?c] = [Fin ?a, Fin ?b, Fin ?c]"
    using a by (intro poly1d_lead) simp
  then have l: "lagrange [?x0, ?x1, ?x2] [?y0, ?y1, ?y2] = Inr [Fin ?a, Fin ?b, Fin ?c]"
    unfolding lagrange3 [OF d] by (rule arg_cong)
  have f: "fin_row (segment_coeffs Time Signal i) = (Fin ?a, Fin ?b, Fin ?c)"
    by (simp add: segment_coeffs_def fin_row_def Let_def)
  show ?thesis
    unfolding segment_row_three [OF assms(1,2)] l f by (simp add: broadcast3_def)
qed

lemma LagrangeInterpol_fin:
  assumes "length Time \<le> length Signal"
    and "\<forall>i<(length Time - 1) div 2.
           \<not> segment_degenerate Time i \<and> \<not> segment_collinear Time Signal i"
  shows "LagrangeInterpol (replicate (length Time div 2) zero_row) Time Signal
         = Inr (map fin_row (series_coeffs Time Signal))"
proof -
  let ?n = "(length Time - 1) div 2" and ?m = "length Time div 2"
  let ?R = "map fin_row (series_coeffs Time Signal)"
  have nm: "?n \<le> ?m"
    by simp
  have len: "length ?R = ?m"
    using nm by (simp add: series_coeffs_def)
  have seg: "\<forall>i<?n. segment_row Time Signal (1 + 2 * i) = Inr (?R ! i)"
  proof (intro allI impI)
    fix i assume i: "i < ?n"
    then have b: "2 * i + 2 < length Time"
      by auto
    have "?R ! i = fin_row (segment_coeffs Time Signal i)"
      using i nm by (simp add: series_coeffs_def nth_append)
    then show "segment_row Time Signal (1 + 2 * i) = Inr (?R ! i)"
      using segment_row_fin [OF b assms(1)] assms(2) i by simp
  qed
  have zero: "\<forall>i. ?n \<le> i \<and> i < ?m \<longrightarrow> ?R ! i = zero_row"
    by (auto simp: series_coeffs_def nth_append zero_row_def fin_row_def)
  show ?thesis
    using len seg zero by (simp only: LagrangeInterpol_iff)
qed

lemma AdmFromQ_DFT_fin:
  assumes "length Time \<le> length Signal"
    and "\<forall>i<(length Time - 1) div 2.
           \<not> segment_degenerate Time i \<and> \<not> segment_collinear Time Signal i"
    and "\<forall>ff\<in>set freq. ff \<noteq> 0"
  shows "AdmFromQ_DFT Time Signal freq
         = Inr (map Fin (map (\<lambda>ff. segment_sum ff Time (series_coeffs Time Signal)) freq))"
proof -
  have "(length Time - 1) div 2 \<le> length (series_coeffs Time Signal)"
    by (simp add: series_coeffs_def)
  from FilonLagrange_fin [OF assms(3) this]
  show ?thesis
    by (simp add: AdmFromQ_DFT_def LagrangeInterpol_fin [OF assms(1,2)] comp_def)
qed

subsection \<open>What the interpolator returns\<close>





text \<open>
  The outcomes of one segment with pairwise distinct times in exact arithmetic: the
  quadratic when its leading coefficient is not zero; ValueError when the samples lie on
  a line that is not constant (\<open>p.coef\<close> has two entries); and, for a constant signal,
  the constant in all three columns (\<open>p.coef\<close> has one entry, which the assignment
  broadcasts). The doubles of the code round the leading coefficient, which then is
  zero for some of these inputs only: for all those whose intermediate values are
  doubles, as the times \<open>0, 1, 2\<close> with small integer samples.
\<close>

lemma LagrangeInterpol_three_outcomes:
  assumes "x0 \<noteq> x1" "x0 \<noteq> x2" "x1 \<noteq> x2"
  shows "LagrangeInterpol [zero_row] [x0, x1, x2] [y0, y1, y2]
     = (if quad_a x0 x1 x2 y0 y1 y2 \<noteq> 0
        then Inr [(Fin (quad_a x0 x1 x2 y0 y1 y2), Fin (quad_b x0 x1 x2 y0 y1 y2),
                   Fin (quad_c x0 x1 x2 y0 y1 y2))]
        else if quad_b x0 x1 x2 y0 y1 y2 \<noteq> 0 then Inl ValueError
        else Inr [(Fin (quad_c x0 x1 x2 y0 y1 y2), Fin (quad_c x0 x1 x2 y0 y1 y2),
                   Fin (quad_c x0 x1 x2 y0 y1 y2))])"
  unfolding LagrangeInterpol_single lagrange3 [OF assms]
  by (cases "Fin (quad_a x0 x1 x2 y0 y1 y2)" "Fin (quad_b x0 x1 x2 y0 y1 y2)"
      "Fin (quad_c x0 x1 x2 y0 y1 y2)" rule: poly1d3_cases) (simp_all add: broadcast3_def)

lemma LagrangeInterpol_three_degenerate:
  assumes "x0 = x1 \<or> x0 = x2 \<or> x1 = x2"
  shows "LagrangeInterpol [zero_row] [x0, x1, x2] [y0, y1, y2]
     = (if x0 \<noteq> x1 \<and> x0 \<noteq> x2 \<and> y1 = 0 \<and> y2 = 0
        then (if y0 = 0 then Inl ValueError
              else Inr [(Fin (y0 / ((x0 - x1) * (x0 - x2))), NonFin, NonFin)])
        else Inr [(NonFin, NonFin, NonFin)])"
  unfolding LagrangeInterpol_single lagrange3_degenerate [OF assms]
  by (simp add: broadcast3_def)


subsection \<open>Claim C3: the rows of the interpolator\<close>




subsection \<open>Claim C6: the stored row and the samples\<close>

text \<open>
  Claim C6 on the code. \<open>coeffs[ipp,:] = p.coef\<close> stores the coefficients of a
  \<open>poly1d\<close>, which has dropped its leading zeros. For the constant samples \<open>1, 1, 1\<close> at
  the times \<open>0, 1, 2\<close> (every intermediate value is a double) \<open>p.coef\<close> is \<open>[1.]\<close>, the
  assignment broadcasts it, and the row is \<open>(1, 1, 1)\<close>: the quadratic
  \<open>t\<^sup>2 + t + 1\<close>, whose values at the times \<open>1\<close> and \<open>2\<close> are \<open>3\<close> and \<open>7\<close>, not the
  samples. For the samples \<open>0, 1, 2\<close> on a line \<open>p.coef\<close> is \<open>[1., 0.]\<close> and the
  assignment raises ValueError.
\<close>

theorem C6_constant_signal_row:
  "LagrangeInterpol (replicate (length [0, 1, 2 :: real] div 2) zero_row) [0, 1, 2] [1, 1, 1]
     = Inr [(Fin 1, Fin 1, Fin 1)]
   \<and> row_value (Fin 1, Fin 1, Fin 1) 1 = Fin 3
   \<and> row_value (Fin 1, Fin 1, Fin 1) 2 = Fin 7
   \<and> LagrangeInterpol (replicate (length [0, 1, 2 :: real] div 2) zero_row) [0, 1, 2] [0, 1, 2]
     = Inl ValueError"
proof -
  have r: "replicate (length [0, 1, 2 :: real] div 2) zero_row = [zero_row]"
    by simp
  have c: "LagrangeInterpol [zero_row] [0, 1, 2] [1, 1, 1] = Inr [(Fin 1, Fin 1, Fin 1)]"
    by (simp add: LagrangeInterpol_three_outcomes quad_a_def quad_b_def quad_c_def
        lagrange_weight_def)
  have l: "LagrangeInterpol [zero_row] [0, 1, 2] [0, 1, 2] = Inl ValueError"
    by (simp add: LagrangeInterpol_three_outcomes quad_a_def quad_b_def quad_c_def
        lagrange_weight_def)
  show ?thesis
    unfolding r using c l by simp
qed

subsection \<open>Claim C7: two coinciding times\<close>

text \<open>
  Claim C7 as stated has the interpolator fail on two coinciding times. The code has no
  such check and no DegenerateInputError: for the times \<open>0, 0, 1\<close> the divisions by
  \<open>fac = 0.0\<close> yield infinities and NaNs, and the call returns a row of them.
\<close>

theorem C7_coinciding_times_counterexample:
  "LagrangeInterpol (replicate (length [0, 0, 1 :: real] div 2) zero_row) [0, 0, 1] [1, 2, 3]
   = Inr [(NonFin, NonFin, NonFin)]"
proof -
  have r: "replicate (length [0, 0, 1 :: real] div 2) zero_row = [zero_row]"
    by simp
  show ?thesis
    unfolding r by (simp add: LagrangeInterpol_three_degenerate)
qed

lemma LagrangeInterpol_degenerate_cases:
  assumes "x0 = x1 \<or> x0 = x2 \<or> x1 = x2"
  shows "LagrangeInterpol [zero_row] [x0, x1, x2] [y0, y1, y2] = Inl ValueError
         \<or> (\<exists>a. LagrangeInterpol [zero_row] [x0, x1, x2] [y0, y1, y2] = Inr [(a, NonFin, NonFin)])"
  unfolding LagrangeInterpol_three_degenerate [OF assms] by simp

text \<open>
  Claim C7, as the code has it. A segment with two coinciding times is not rejected. The
  interpolator on its three samples either returns one row whose second and third
  coefficient are not finite, or raises the ValueError of the assignment
  \<open>coeffs[ipp,:] = p.coef\<close> (when \<open>p.coef\<close> has two entries); and whenever the
  interpolator returns for the whole series, the row of that segment has a second and a
  third coefficient that are not finite.
\<close>

theorem C7_coinciding_times_not_rejected:
  assumes "length Signal = length Time" and "i < (length Time - 1) div 2"
    and "segment_degenerate Time i"
  shows "(LagrangeInterpol [zero_row] (slice Time (2 * i) (2 * i + 3))
              (slice Signal (2 * i) (2 * i + 3)) = Inl ValueError
          \<or> (\<exists>a. LagrangeInterpol [zero_row] (slice Time (2 * i) (2 * i + 3))
                    (slice Signal (2 * i) (2 * i + 3)) = Inr [(a, NonFin, NonFin)]))
         \<and> (\<forall>rows. LagrangeInterpol (replicate (length Time div 2) zero_row) Time Signal = Inr rows
                \<longrightarrow> (\<exists>a. rows ! i = (a, NonFin, NonFin)))"
proof -
  let ?x0 = "Time ! (2 * i)" and ?x1 = "Time ! (2 * i + 1)" and ?x2 = "Time ! (2 * i + 2)"
  let ?y0 = "Signal ! (2 * i)" and ?y1 = "Signal ! (2 * i + 1)" and ?y2 = "Signal ! (2 * i + 2)"
  let ?one = "LagrangeInterpol [zero_row] (slice Time (2 * i) (2 * i + 3))
                (slice Signal (2 * i) (2 * i + 3))"
  have b: "2 * i + 2 < length Time"
    using assms(2) by auto
  have le: "length Time \<le> length Signal"
    using assms(1) by simp
  have sT: "slice Time (2 * i) (2 * i + 3) = [?x0, ?x1, ?x2]"
    using b by (intro slice3) simp
  have sS: "slice Signal (2 * i) (2 * i + 3) = [?y0, ?y1, ?y2]"
    using b le by (intro slice3) simp
  have d: "?x0 = ?x1 \<or> ?x0 = ?x2 \<or> ?x1 = ?x2"
    using assms(3) by (simp add: segment_degenerate_def)
  have one: "?one = Inl ValueError \<or> (\<exists>a. ?one = Inr [(a, NonFin, NonFin)])"
    unfolding sT sS using d by (rule LagrangeInterpol_degenerate_cases)
  have "\<exists>a. rows ! i = (a, NonFin, NonFin)"
    if r: "LagrangeInterpol (replicate (length Time div 2) zero_row) Time Signal = Inr rows"
    for rows
  proof -
    from r have "segment_row Time Signal (1 + 2 * i) = Inr (rows ! i)"
      unfolding LagrangeInterpol_iff using assms(2) by blast
    then have "?one = Inr [rows ! i]"
      using LagrangeInterpol_segment [OF b le] by blast
    then show ?thesis
      using one by auto
  qed
  then show ?thesis
    using one by blast
qed

theorem C7_coinciding_times_not_rejected_witness:
  "length [1, 2, 3 :: real] = length [0, 0, 1 :: real]
   \<and> (0 :: nat) < (length [0, 0, 1 :: real] - 1) div 2
   \<and> segment_degenerate [0, 0, 1] 0
   \<and> LagrangeInterpol (replicate (length [0, 0, 1 :: real] div 2) zero_row) [0, 0, 1] [1, 2, 3]
       = Inr [(NonFin, NonFin, NonFin)]
   \<and> (\<exists>a. [(NonFin, NonFin, NonFin) :: row] ! 0 = (a, NonFin, NonFin))"
proof -
  have h1: "length [1, 2, 3 :: real] = length [0, 0, 1 :: real]"
    by simp
  have h2: "(0 :: nat) < (length [0, 0, 1 :: real] - 1) div 2"
    by simp
  have h3: "segment_degenerate [0, 0, 1] 0"
    by (simp add: segment_degenerate_def)
  have r: "replicate (length [0, 0, 1 :: real] div 2) zero_row = [zero_row]"
    by simp
  have full: "LagrangeInterpol (replicate (length [0, 0, 1 :: real] div 2) zero_row)
      [0, 0, 1] [1, 2, 3] = Inr [(NonFin, NonFin, NonFin)]"
    unfolding r by (simp add: LagrangeInterpol_three_degenerate)
  from C7_coinciding_times_not_rejected [OF h1 h2 h3] full
  have "\<exists>a. [(NonFin, NonFin, NonFin) :: row] ! 0 = (a, NonFin, NonFin)"
    by blast
  then show ?thesis
    using h1 h2 h3 full by blast
qed

subsection \<open>Claim C2: admittance and impedance\<close>

lemma AdmFromQ_loop_result:
  assumes "\<forall>k\<in>set ks. k < length freq \<and> k < length DFT \<and> k < length Adm"
    and "QACF \<noteq> []"
  shows "\<exists>A. AdmFromQ_loop \<beta> freq QACF DFT ks Adm = Inr A \<and> length A = length Adm
     \<and> (\<forall>k<length Adm. A ! k =
           (if k \<in> set ks then adm_value \<beta> (freq ! k) (DFT ! k) (QACF ! 0) else Adm ! k))"
  using assms(1)
proof (induction ks arbitrary: Adm rule: rev_induct)
  case Nil
  then show ?case by simp
next
  case (snoc k ks)
  have loop_app: "AdmFromQ_loop \<beta> freq QACF DFT (xs @ [k]) B =
      (case AdmFromQ_loop \<beta> freq QACF DFT xs B of Inl e \<Rightarrow> Inl e
       | Inr B' \<Rightarrow> AdmFromQ_loop \<beta> freq QACF DFT [k] B')" for xs B
    by (induction xs arbitrary: B) simp_all
  have pre: "\<forall>j\<in>set ks. j < length freq \<and> j < length DFT \<and> j < length Adm"
    using snoc.prems by simp
  obtain A where A: "AdmFromQ_loop \<beta> freq QACF DFT ks Adm = Inr A" "length A = length Adm"
      "\<forall>j<length Adm. A ! j =
           (if j \<in> set ks then adm_value \<beta> (freq ! j) (DFT ! j) (QACF ! 0) else Adm ! j)"
    using snoc.IH [OF pre] by blast
  have k: "k < length freq" "k < length DFT" "k < length A"
    using snoc.prems A(2) by simp_all
  let ?A = "A[k := adm_value \<beta> (freq ! k) (DFT ! k) (QACF ! 0)]"
  have "AdmFromQ_loop \<beta> freq QACF DFT (ks @ [k]) Adm = Inr ?A"
    using A(1) k assms(2) by (simp add: loop_app)
  moreover have "\<forall>j<length Adm. ?A ! j =
           (if j \<in> set (ks @ [k]) then adm_value \<beta> (freq ! j) (DFT ! j) (QACF ! 0) else Adm ! j)"
    using A(2,3) k(3) by (auto simp: nth_list_update)
  ultimately show ?case
    using A(2) by simp
qed

lemma AdmFromQ_loop_all:
  assumes "length DFT = length freq" and "QACF \<noteq> []"
  shows "AdmFromQ_loop \<beta> freq QACF DFT [0..<length freq] (replicate (length DFT) (Fin 0))
     = Inr (map (\<lambda>k. adm_value \<beta> (freq ! k) (DFT ! k) (QACF ! 0)) [0..<length freq])"
proof -
  let ?Z = "replicate (length DFT) (Fin (0::complex))"
  have pre: "\<forall>k\<in>set [0..<length freq]. k < length freq \<and> k < length DFT \<and> k < length ?Z"
    using assms(1) by simp
  obtain A where A: "AdmFromQ_loop \<beta> freq QACF DFT [0..<length freq] ?Z = Inr A"
      "length A = length ?Z"
      "\<forall>k<length ?Z. A ! k =
           (if k \<in> set [0..<length freq] then adm_value \<beta> (freq ! k) (DFT ! k) (QACF ! 0)
            else ?Z ! k)"
    using AdmFromQ_loop_result [OF pre assms(2)] by blast
  have "A = map (\<lambda>k. adm_value \<beta> (freq ! k) (DFT ! k) (QACF ! 0)) [0..<length freq]"
  proof (rule nth_equalityI)
    show "length A = length (map (\<lambda>k. adm_value \<beta> (freq ! k) (DFT ! k) (QACF ! 0)) [0..<length freq])"
      using A(2) assms(1) by simp
  next
    fix i assume "i < length A"
    then show "A ! i = map (\<lambda>k. adm_value \<beta> (freq ! k) (DFT ! k) (QACF ! 0)) [0..<length freq] ! i"
      using A(2,3) assms(1) by simp
  qed
  then show ?thesis
    using A(1) by simp
qed

text \<open>
  Claim C2. For every raw transform \<open>F\<close> on the frequency grid, every \<open>\<beta>\<close> and every
  zero-lag value \<open>QACF[0]\<close>, the loop of \<open>AdmFromQ\<close> returns
  \<open>Y(\<omega>\<^sub>k) = \<beta> (\<omega>\<^sub>k\<^sup>2 F(\<omega>\<^sub>k) + i \<omega>\<^sub>k QACF[0])\<close> at every index, \<open>AdmFromQ\<close> returns this
  \<open>Y\<close> when its transform is \<open>F\<close>, and \<open>Imp\<close> is \<open>1 / Y(\<omega>\<^sub>k)\<close> at every index (the
  NumPy quotient, which is not a finite number where \<open>Y(\<omega>\<^sub>k) = 0\<close>).
\<close>

theorem C2_admittance_and_impedance:
  assumes "length F = length freq" and "QACF \<noteq> []"
  shows "\<exists>Y. AdmFromQ_loop \<beta> freq QACF (map Fin F) [0..<length freq]
                (replicate (length (map Fin F)) (Fin 0)) = Inr (map Fin Y)
           \<and> length Y = length freq
           \<and> (\<forall>k<length freq.
                Y ! k = of_real \<beta> * ((of_real (freq ! k)) ^ 2 * F ! k
                                      + \<i> * of_real (freq ! k) * of_real (QACF ! 0))
                \<and> Imp (map Fin Y) ! k = (if Y ! k = 0 then NonFin else Fin (1 / Y ! k)))
           \<and> (\<forall>Time. AdmFromQ_DFT Time QACF freq = Inr (map Fin F)
                \<longrightarrow> AdmFromQ \<beta> Time QACF freq = Inr (map Fin Y))"
proof -
  let ?Y = "map (\<lambda>k. of_real \<beta> * ((of_real (freq ! k)) ^ 2 * F ! k
                          + \<i> * of_real (freq ! k) * of_real (QACF ! 0))) [0..<length freq]"
  have l: "length (map Fin F) = length freq"
    using assms(1) by simp
  have "map (\<lambda>k. adm_value \<beta> (freq ! k) (map Fin F ! k) (QACF ! 0)) [0..<length freq] = map Fin ?Y"
    using assms(1) by simp
  then have loop: "AdmFromQ_loop \<beta> freq QACF (map Fin F) [0..<length freq]
                (replicate (length (map Fin F)) (Fin 0)) = Inr (map Fin ?Y)"
    using AdmFromQ_loop_all [OF l assms(2), of \<beta>] by simp
  have vals: "\<forall>k<length freq.
                ?Y ! k = of_real \<beta> * ((of_real (freq ! k)) ^ 2 * F ! k
                                      + \<i> * of_real (freq ! k) * of_real (QACF ! 0))
                \<and> Imp (map Fin ?Y) ! k = (if ?Y ! k = 0 then NonFin else Fin (1 / ?Y ! k))"
    by (simp add: Imp_def)
  have whole: "\<forall>Time. AdmFromQ_DFT Time QACF freq = Inr (map Fin F)
                \<longrightarrow> AdmFromQ \<beta> Time QACF freq = Inr (map Fin ?Y)"
    using loop by (simp add: AdmFromQ_def)
  show ?thesis
    using loop vals whole by (intro exI [of _ ?Y] conjI) simp_all
qed

theorem C2_admittance_and_impedance_witness:
  "length [segment_sum 3 [0, 1, 2] [(1, 0, 0)]] = length [3 :: real] \<and> [0, 1, 4 :: real] \<noteq> []
   \<and> AdmFromQ_DFT [0, 1, 2] [0, 1, 4] [3] = Inr (map Fin [segment_sum 3 [0, 1, 2] [(1, 0, 0)]])
   \<and> (\<exists>Y. AdmFromQ 7 [0, 1, 2] [0, 1, 4] [3] = Inr (map Fin Y)
         \<and> length Y = length [3 :: real]
         \<and> Y ! 0 = 7 * (3 ^ 2 * segment_sum 3 [0, 1, 2] [(1, 0, 0)] + \<i> * 3 * 0)
         \<and> Imp (map Fin Y) ! 0 = (if Y ! 0 = 0 then NonFin else Fin (1 / Y ! 0)))"
proof -
  let ?F = "[segment_sum 3 [0, 1, 2] [(1, 0, 0)]]"
  have h1: "length ?F = length [3 :: real]"
    by simp
  have h2: "[0, 1, 4 :: real] \<noteq> []"
    by simp
  have c: "series_coeffs [0, 1, 2] [0, 1, 4] = [(1, 0, 0)]"
    by (simp add: series_coeffs_def segment_coeffs_def quad_a_def quad_b_def quad_c_def
        lagrange_weight_def)
  have "\<forall>i<(length [0, 1, 2 :: real] - 1) div 2.
           \<not> segment_degenerate [0, 1, 2] i \<and> \<not> segment_collinear [0, 1, 2] [0, 1, 4] i"
    by (simp add: segment_degenerate_def segment_collinear_def collinear_def)
  then have h3: "AdmFromQ_DFT [0, 1, 2] [0, 1, 4] [3] = Inr (map Fin ?F)"
    using AdmFromQ_DFT_fin [of "[0, 1, 2]" "[0, 1, 4]" "[3]"] by (simp add: c)
  obtain Y where Y: "length Y = length [3 :: real]"
      "\<forall>k<length [3 :: real].
                Y ! k = of_real 7 * ((of_real ([3] ! k)) ^ 2 * ?F ! k
                                      + \<i> * of_real ([3] ! k) * of_real ([0, 1, 4] ! 0))
                \<and> Imp (map Fin Y) ! k = (if Y ! k = 0 then NonFin else Fin (1 / Y ! k))"
      "\<forall>Time. AdmFromQ_DFT Time [0, 1, 4] [3] = Inr (map Fin ?F)
                \<longrightarrow> AdmFromQ 7 Time [0, 1, 4] [3] = Inr (map Fin Y)"
    using C2_admittance_and_impedance [OF h1 h2, of 7] by blast
  have a: "AdmFromQ 7 [0, 1, 2] [0, 1, 4] [3] = Inr (map Fin Y)"
    using Y(3) h3 by blast
  have v: "Y ! 0 = 7 * (3 ^ 2 * segment_sum 3 [0, 1, 2] [(1, 0, 0)] + \<i> * 3 * 0)"
    "Imp (map Fin Y) ! 0 = (if Y ! 0 = 0 then NonFin else Fin (1 / Y ! 0))"
    using Y(2) by simp_all
  have "\<exists>Y. AdmFromQ 7 [0, 1, 2] [0, 1, 4] [3] = Inr (map Fin Y)
         \<and> length Y = length [3 :: real]
         \<and> Y ! 0 = 7 * (3 ^ 2 * segment_sum 3 [0, 1, 2] [(1, 0, 0)] + \<i> * 3 * 0)
         \<and> Imp (map Fin Y) ! 0 = (if Y ! 0 = 0 then NonFin else Fin (1 / Y ! 0))"
    using a Y(1) v by (intro exI [of _ Y] conjI)
  then show ?thesis
    using h3 by simp
qed

subsection \<open>Claims C8 and C9: a zero admittance, and series without a segment\<close>

lemma FilonLagrange_outer_no_segment:
  assumes "length Time < 3"
  shows "FilonLagrange_outer freq Time coeffs ks DFT = Inr DFT"
proof -
  have "(length Time - 1) div 2 = 0"
    using assms by simp
  then have "range2 0 (int (length Time) - 2) = []"
    unfolding range2_segments by simp
  then show ?thesis
    by (induction ks) simp_all
qed

lemma AdmFromQ_DFT_short:
  assumes "length Time < 3"
  shows "AdmFromQ_DFT Time QACF freq = Inr (replicate (length freq) (Fin 0))"
proof -
  have "(length Time - 1) div 2 = 0"
    using assms by simp
  then have "range2 1 (int (length Time) - 1) = []"
    unfolding range2_nodes by simp
  then have "LagrangeInterpol (replicate (length Time div 2) zero_row) Time QACF
      = Inr (replicate (length Time div 2) zero_row)"
    by (simp add: LagrangeInterpol_def)
  then show ?thesis
    by (simp add: AdmFromQ_DFT_def FilonLagrange_def FilonLagrange_outer_no_segment [OF assms])
qed

lemma AdmFromQ_short:
  assumes "length Time < 3" and "QACF \<noteq> []"
  shows "AdmFromQ \<beta> Time QACF freq
         = Inr (map (\<lambda>ff. Fin (of_real \<beta> * (\<i> * of_real ff * of_real (QACF ! 0)))) freq)"
proof -
  let ?Z = "replicate (length freq) (Fin (0::complex))"
  have "AdmFromQ \<beta> Time QACF freq
      = AdmFromQ_loop \<beta> freq QACF ?Z [0..<length freq] (replicate (length ?Z) (Fin 0))"
    by (simp add: AdmFromQ_def AdmFromQ_DFT_short [OF assms(1)])
  also have "\<dots> = Inr (map (\<lambda>k. adm_value \<beta> (freq ! k) (?Z ! k) (QACF ! 0)) [0..<length freq])"
    by (rule AdmFromQ_loop_all) (use assms(2) in simp_all)
  also have "map (\<lambda>k. adm_value \<beta> (freq ! k) (?Z ! k) (QACF ! 0)) [0..<length freq]
      = map (\<lambda>ff. Fin (of_real \<beta> * (\<i> * of_real ff * of_real (QACF ! 0)))) freq"
    by (rule nth_equalityI) simp_all
  finally show ?thesis .
qed

lemma AdmFromQ_empty:
  assumes "length Time < 3" and "freq \<noteq> []"
  shows "AdmFromQ \<beta> Time [] freq = Inl IndexError"
proof -
  have "[0..<length freq] = 0 # [1..<length freq]"
    using assms(2) by (simp add: upt_conv_Cons)
  then show ?thesis
    by (simp add: AdmFromQ_def AdmFromQ_DFT_short [OF assms(1)])
qed

lemma FilonLagrange_inner_length:
  assumes "FilonLagrange_inner freq Time coeffs ifreq its ip DFT = Inr D"
  shows "length D = length DFT"
  using assms
  by (induction its arbitrary: ip DFT) (auto split: if_splits)

lemma FilonLagrange_outer_length:
  assumes "FilonLagrange_outer freq Time coeffs ks DFT = Inr D"
  shows "length D = length DFT"
  using assms
proof (induction ks arbitrary: DFT)
  case Nil
  then show ?case by simp
next
  case (Cons k ks)
  then obtain D' where D': "FilonLagrange_inner freq Time coeffs k (range2 0 (int (length Time) - 2)) 0 DFT
      = Inr D'" "FilonLagrange_outer freq Time coeffs ks D' = Inr D"
    by (auto split: sum.splits)
  then show ?case
    using Cons.IH [OF D'(2)] FilonLagrange_inner_length [OF D'(1)] by simp
qed

lemma AdmFromQ_loop_length:
  assumes "AdmFromQ_loop \<beta> freq QACF DFT ks Adm = Inr A"
  shows "length A = length Adm"
  using assms
  by (induction ks arbitrary: Adm) (auto split: if_splits)

lemma AdmFromQ_length:
  assumes "AdmFromQ \<beta> Time QACF freq = Inr Adm"
  shows "length Adm = length freq"
proof -
  from assms obtain DFT where d: "AdmFromQ_DFT Time QACF freq = Inr DFT"
    and a: "AdmFromQ_loop \<beta> freq QACF DFT [0..<length freq] (replicate (length DFT) (Fin 0)) = Inr Adm"
    by (auto simp: AdmFromQ_def split: sum.splits)
  from d obtain Coeffs where
    "FilonLagrange (replicate (length freq) (Fin 0)) freq Time Coeffs = Inr DFT"
    by (auto simp: AdmFromQ_DFT_def split: sum.splits)
  then have "length DFT = length freq"
    unfolding FilonLagrange_def using FilonLagrange_outer_length by fastforce
  then show ?thesis
    using AdmFromQ_loop_length [OF a] by simp
qed

text \<open>The zero signal at the times \<open>0, 1, 2\<close>: a zero row, a zero transform, a zero admittance.\<close>

lemma AdmFromQ_zero_signal:
  assumes "\<forall>ff\<in>set freq. ff \<noteq> 0"
  shows "AdmFromQ \<beta> [0, 1, 2] [0, 0, 0] freq = Inr (replicate (length freq) (Fin 0))"
proof -
  have "LagrangeInterpol [zero_row] [0, 1, 2] [0, 0, 0] = Inr [(Fin 0, Fin 0, Fin 0)]"
    by (simp add: LagrangeInterpol_three_outcomes quad_a_def quad_b_def quad_c_def
        lagrange_weight_def)
  then have rows: "LagrangeInterpol (replicate (length [0, 1, 2 :: real] div 2) zero_row)
      [0, 1, 2] [0, 0, 0] = Inr (map fin_row [(0, 0, 0)])"
    by (simp add: fin_row_def)
  have "FilonLagrange (replicate (length freq) (Fin 0)) freq [0, 1, 2] (map fin_row [(0, 0, 0)])
      = Inr (map (\<lambda>ff. Fin (segment_sum ff [0, 1, 2] [(0, 0, 0)])) freq)"
    using assms by (rule FilonLagrange_fin) simp
  moreover have "segment_sum ff [0, 1, 2] [(0, 0, 0)] = 0" for ff
    by (simp add: segment_sum_def spec_summand_def)
  ultimately have dft: "AdmFromQ_DFT [0, 1, 2] [0, 0, 0] freq = Inr (replicate (length freq) (Fin 0))"
    unfolding AdmFromQ_DFT_def rows by (simp add: map_replicate_const)
  let ?Z = "replicate (length freq) (Fin (0 :: complex))"
  have "AdmFromQ_loop \<beta> freq [0, 0, 0] ?Z [0..<length freq] (replicate (length ?Z) (Fin 0))
      = Inr (map (\<lambda>k. adm_value \<beta> (freq ! k) (?Z ! k) ([0, 0, 0] ! 0)) [0..<length freq])"
    by (rule AdmFromQ_loop_all) simp_all
  moreover have "map (\<lambda>k. adm_value \<beta> (freq ! k) (?Z ! k) ([0, 0, 0] ! 0)) [0..<length freq] = ?Z"
    by (rule nth_equalityI) simp_all
  ultimately show ?thesis
    unfolding AdmFromQ_def dft by simp
qed

text \<open>
  Claim C8 as stated has the mapper fail where the admittance is zero. For the zero signal
  at the times \<open>0, 1, 2\<close> the admittance at the frequency \<open>1\<close> is zero, nothing is
  raised, and the impedance is not finite.
\<close>

theorem C8_zero_admittance_counterexample:
  "AdmFromQ beta [0, 1, 2] [0, 0, 0] [1] = Inr [Fin 0] \<and> Imp [Fin 0] = [NonFin]"
proof -
  have "AdmFromQ beta [0, 1, 2] [0, 0, 0] [1] = Inr (replicate (length [1 :: real]) (Fin 0))"
    by (rule AdmFromQ_zero_signal) simp
  then show ?thesis
    by (simp add: Imp_def)
qed

text \<open>
  Claim C8, as the code has it. Where the admittance that \<open>AdmFromQ\<close> returns is zero,
  nothing fails: the admittance has one entry per frequency, \<open>Imp = 1/Adm\<close> is a NumPy
  division with one entry per frequency, the impedance at that index is an infinity or a
  NaN, and every index with a finite nonzero admittance holds its reciprocal.
\<close>

theorem C8_zero_admittance_not_rejected:
  assumes "AdmFromQ \<beta> Time QACF freq = Inr Adm" and "k < length Adm" and "Adm ! k = Fin 0"
  shows "length Adm = length freq \<and> length (Imp Adm) = length freq \<and> Imp Adm ! k = NonFin
         \<and> (\<forall>j<length Adm. \<forall>z. Adm ! j = Fin z \<and> z \<noteq> 0 \<longrightarrow> Imp Adm ! j = Fin (1 / z))"
  using assms(2,3) AdmFromQ_length [OF assms(1)] by (simp add: Imp_def)

theorem C8_zero_admittance_not_rejected_witness:
  "AdmFromQ beta [0, 1, 2] [0, 0, 0] [1, 3] = Inr [Fin 0, Fin 0]
   \<and> (1 :: nat) < length [Fin 0, Fin (0 :: complex)]
   \<and> [Fin 0, Fin (0 :: complex)] ! 1 = Fin 0
   \<and> length (Imp [Fin 0, Fin 0]) = length [1, 3 :: real]
   \<and> Imp [Fin 0, Fin 0] ! 1 = NonFin"
proof -
  have "AdmFromQ beta [0, 1, 2] [0, 0, 0] [1, 3] = Inr (replicate (length [1, 3 :: real]) (Fin 0))"
    by (rule AdmFromQ_zero_signal) simp
  then have h1: "AdmFromQ beta [0, 1, 2] [0, 0, 0] [1, 3] = Inr [Fin 0, Fin 0]"
    by (simp add: numeral_2_eq_2)
  have h2: "(1 :: nat) < length [Fin 0, Fin (0 :: complex)]"
    by simp
  have h3: "[Fin 0, Fin (0 :: complex)] ! 1 = Fin 0"
    by simp
  from C8_zero_admittance_not_rejected [OF h1 h2 h3] h1 h2 h3
  show ?thesis
    by simp
qed

text \<open>
  Claim C9 as stated has every series of fewer than three samples fail. For two samples
  the loops have no segment, the transform is zero, and \<open>AdmFromQ\<close> returns the
  admittance \<open>\<beta> i \<omega> QACF[0]\<close>.
\<close>

theorem C9_short_series_counterexample:
  "AdmFromQ beta [0, 1] [1, 1] [1] = Inr [Fin (of_real beta * \<i>)]"
proof -
  have "AdmFromQ beta [0, 1] [1, 1] [1]
      = Inr (map (\<lambda>ff. Fin (of_real beta * (\<i> * of_real ff * of_real ([1, 1] ! 0)))) [1])"
    by (rule AdmFromQ_short) simp_all
  then show ?thesis
    by simp
qed

text \<open>
  Claim C9, as the code has it. A series of exactly three samples has one segment, and
  the buffer that \<open>AdmFromQ\<close> passes has one row: the interpolator returns one
  coefficient triple whenever it returns. No length is rejected: fewer than three
  samples give no segment, a zero transform and the admittance \<open>\<beta> i \<omega>\<^sub>k QACF[0]\<close>;
  only the read of \<open>QACF[0]\<close> of an empty series raises (IndexError), when the frequency
  grid is not empty.
\<close>

theorem C9_series_lengths:
  "(length Time = 3
    \<longrightarrow> range2 0 (int (length Time) - 2) = [0] \<and> range2 1 (int (length Time) - 1) = [1]
        \<and> (\<forall>rows. LagrangeInterpol (replicate (length Time div 2) zero_row) Time QACF = Inr rows
              \<longrightarrow> length rows = 1))
   \<and> (length Time < 3 \<and> QACF \<noteq> []
    \<longrightarrow> AdmFromQ \<beta> Time QACF freq
          = Inr (map (\<lambda>ff. Fin (of_real \<beta> * (\<i> * of_real ff * of_real (QACF ! 0)))) freq))
   \<and> (length Time < 3 \<and> QACF = [] \<and> freq \<noteq> []
    \<longrightarrow> AdmFromQ \<beta> Time QACF freq = Inl IndexError)"
proof (intro conjI impI allI)
  assume a: "length Time = 3"
  show "range2 0 (int (length Time) - 2) = [0]"
    unfolding range2_segments using a by simp
  show "range2 1 (int (length Time) - 1) = [1]"
    unfolding range2_nodes using a by simp
  fix rows
  assume "LagrangeInterpol (replicate (length Time div 2) zero_row) Time QACF = Inr rows"
  then have "length rows = length Time div 2"
    by (simp only: LagrangeInterpol_iff)
  then show "length rows = 1"
    using a by simp
next
  assume "length Time < 3 \<and> QACF \<noteq> []"
  then show "AdmFromQ \<beta> Time QACF freq
          = Inr (map (\<lambda>ff. Fin (of_real \<beta> * (\<i> * of_real ff * of_real (QACF ! 0)))) freq)"
    by (simp add: AdmFromQ_short)
next
  assume "length Time < 3 \<and> QACF = [] \<and> freq \<noteq> []"
  then show "AdmFromQ \<beta> Time QACF freq = Inl IndexError"
    by (simp add: AdmFromQ_empty)
qed

theorem C9_series_lengths_witness:
  "length [0, 1, 2 :: real] = 3
   \<and> range2 0 (int (length [0, 1, 2 :: real]) - 2) = [0]
   \<and> range2 1 (int (length [0, 1, 2 :: real]) - 1) = [1]
   \<and> LagrangeInterpol (replicate (length [0, 1, 2 :: real] div 2) zero_row) [0, 1, 2] [0, 1, 4]
       = Inr [(Fin 1, Fin 0, Fin 0)]
   \<and> length [0, 1 :: real] < 3 \<and> [5, 6 :: real] \<noteq> []
   \<and> AdmFromQ beta [0, 1] [5, 6] [3] = Inr [Fin (of_real beta * (15 * \<i>))]
   \<and> length ([] :: real list) < 3 \<and> [3 :: real] \<noteq> []
   \<and> AdmFromQ beta [] [] [3] = Inl IndexError"
proof -
  have h1: "length [0, 1, 2 :: real] = 3"
    by simp
  have "\<forall>i<(length [0, 1, 2 :: real] - 1) div 2.
           \<not> segment_degenerate [0, 1, 2] i \<and> \<not> segment_collinear [0, 1, 2] [0, 1, 4] i"
    by (simp add: segment_degenerate_def segment_collinear_def collinear_def)
  then have "LagrangeInterpol (replicate (length [0, 1, 2 :: real] div 2) zero_row) [0, 1, 2] [0, 1, 4]
      = Inr (map fin_row (series_coeffs [0, 1, 2] [0, 1, 4]))"
    by (intro LagrangeInterpol_fin) simp_all
  moreover have "series_coeffs [0, 1, 2] [0, 1, 4] = [(1, 0, 0)]"
    by (simp add: series_coeffs_def segment_coeffs_def quad_a_def quad_b_def quad_c_def
        lagrange_weight_def)
  ultimately have l: "LagrangeInterpol (replicate (length [0, 1, 2 :: real] div 2) zero_row)
      [0, 1, 2] [0, 1, 4] = Inr [(Fin 1, Fin 0, Fin 0)]"
    by (simp add: fin_row_def)
  have r1: "range2 0 (int (length [0, 1, 2 :: real]) - 2) = [0]
      \<and> range2 1 (int (length [0, 1, 2 :: real]) - 1) = [1]
      \<and> (\<forall>rows. LagrangeInterpol (replicate (length [0, 1, 2 :: real] div 2) zero_row)
                    [0, 1, 2] [0, 1, 4] = Inr rows \<longrightarrow> length rows = 1)"
    using C9_series_lengths [of "[0, 1, 2]" "[0, 1, 4]" beta "[3]"] h1 by blast
  have h2: "length [0, 1 :: real] < 3 \<and> [5, 6 :: real] \<noteq> []"
    by simp
  have "AdmFromQ beta [0, 1] [5, 6] [3]
      = Inr (map (\<lambda>ff. Fin (of_real beta * (\<i> * of_real ff * of_real ([5, 6] ! 0)))) [3])"
    using C9_series_lengths [of "[0, 1]" "[5, 6]" beta "[3]"] h2 by blast
  then have r2: "AdmFromQ beta [0, 1] [5, 6] [3] = Inr [Fin (of_real beta * (15 * \<i>))]"
    by simp
  have h3: "length ([] :: real list) < 3 \<and> ([] :: real list) = [] \<and> [3 :: real] \<noteq> []"
    by simp
  have r3: "AdmFromQ beta [] [] [3] = Inl IndexError"
    using C9_series_lengths [of "[]" "[]" beta "[3]"] h3 by blast
  show ?thesis
    using h1 r1 l h2 r2 r3 by simp
qed

subsection \<open>Claim C4: the frequency grid\<close>

lemma linspace_fin:
  assumes "1 < num"
  shows "linspace (Fin a) (Fin b) num
         = map Fin ((map (\<lambda>i. real i * ((b - a) / real (num - 1)) + a) [0..<num])[num - 1 := b])"
  using assms by (simp add: linspace_def Let_def fsub_def fmul_def fadd_def map_update comp_def)

lemma nth_map_upt0:
  "i < n \<Longrightarrow> map f [0..<n] ! i = f i"
  by simp

lemma logspace_fin:
  assumes "1 < num"
  shows "logspace (Fin a) (Fin b) num
         = map Fin (map (\<lambda>i. 10 powr (if i = num - 1 then b
                                        else real i * ((b - a) / real (num - 1)) + a)) [0..<num])"
  unfolding logspace_def linspace_fin [OF assms]
  by (rule nth_equalityI) (simp_all add: nth_list_update)

lemma freq_grid_fin:
  assumes "2 \<le> length redTime" and "0 < redTime ! 1" and "0 < last redTime" and "1 < n"
  shows "freq_grid n redTime
         = Inr (logspace (Fin (log 10 (2 * pi / last redTime)))
                  (Fin (log 10 (2 * pi / (redTime ! 1 * 3)))) n)"
proof -
  have ne: "redTime \<noteq> []"
    using assms(1) by auto
  have h: "hif redTime = Inr (Fin (2 * pi / (redTime ! 1 * 3)))"
    using assms(1,2) by (simp add: hif_def fdiv_def)
  have l: "lof redTime = Inr (Fin (2 * pi / last redTime))"
    using ne assms(3) by (simp add: lof_def fdiv_def)
  have hp: "0 < 2 * pi / (redTime ! 1 * 3)"
    using assms(2) by simp
  have lp: "0 < 2 * pi / last redTime"
    using assms(3) by simp
  show ?thesis
    using hp lp by (simp add: freq_grid_def h l)
qed

lemma grid_exponent_mono:
  fixes a b :: real
  assumes "a < b" and "j < k" and "k < num"
  shows "(if j = num - 1 then b else real j * ((b - a) / real (num - 1)) + a)
         < (if k = num - 1 then b else real k * ((b - a) / real (num - 1)) + a)"
proof -
  let ?s = "(b - a) / real (num - 1)"
  have n1: "0 < real (num - 1)"
    using assms(2,3) by simp
  have s: "0 < ?s"
    using assms(1) n1 by simp
  have j: "j \<noteq> num - 1"
    using assms(2,3) by simp
  have "real j < real k"
    using assms(2) by simp
  then have jk: "real j * ?s < real k * ?s"
    using s by (rule mult_strict_right_mono)
  have full: "real (num - 1) * ?s = b - a"
    using n1 by simp
  show ?thesis
  proof (cases "k = num - 1")
    case True
    then have "real j * ?s < b - a"
      using jk full by simp
    then show ?thesis
      using True j by simp
  next
    case False
    then show ?thesis
      using j jk by simp
  qed
qed

text \<open>
  Claim C4 as stated covers every reduced time array of length \<open>M \<ge> 2\<close>. For the two
  times \<open>0, 1\<close> the low bound \<open>2\<pi>/t\<^sub>m\<^sub>a\<^sub>x = 2\<pi>\<close> is above the high bound
  \<open>2\<pi>/(3\<Delta>t) = 2\<pi>/3\<close>: the grid starts at \<open>2\<pi>\<close> and ends at \<open>2\<pi>/3\<close>, so it is
  not increasing.
\<close>

theorem C4_two_times_counterexample:
  "freq_grid nfreq [0, 1] = Inr (logspace (Fin (log 10 (2 * pi))) (Fin (log 10 (2 * pi / 3))) nfreq)
   \<and> hd (logspace (Fin (log 10 (2 * pi))) (Fin (log 10 (2 * pi / 3))) nfreq) = Fin (2 * pi)
   \<and> last (logspace (Fin (log 10 (2 * pi))) (Fin (log 10 (2 * pi / 3))) nfreq) = Fin (2 * pi / 3)
   \<and> 2 * pi / 3 < 2 * pi"
proof -
  have n: "1 < nfreq"
    by (simp add: nfreq_def)
  have "freq_grid nfreq [0, 1]
      = Inr (logspace (Fin (log 10 (2 * pi / last [0, 1])))
               (Fin (log 10 (2 * pi / ([0, 1] ! 1 * 3)))) nfreq)"
    by (rule freq_grid_fin) (simp_all add: nfreq_def)
  then have g: "freq_grid nfreq [0, 1]
      = Inr (logspace (Fin (log 10 (2 * pi))) (Fin (log 10 (2 * pi / 3))) nfreq)"
    by simp
  have ne: "[0..<nfreq] \<noteq> []"
    using n by simp
  have first: "hd (logspace (Fin (log 10 (2 * pi))) (Fin (log 10 (2 * pi / 3))) nfreq) = Fin (2 * pi)"
    unfolding logspace_fin [OF n] using n ne by (simp add: hd_map upt_conv_Cons)
  have final: "last (logspace (Fin (log 10 (2 * pi))) (Fin (log 10 (2 * pi / 3))) nfreq)
      = Fin (2 * pi / 3)"
    unfolding logspace_fin [OF n] using n ne by (simp add: last_map)
  have "2 * pi / 3 < 2 * pi"
    by simp
  then show ?thesis
    using g first final by simp
qed

text \<open>
  Claim C4, as the code has it, for the \<open>nfreq = 100\<close> frequencies of the script. For a
  reduced time array of at least two times with \<open>\<Delta>t = redTime[1] > 0\<close> and
  \<open>t\<^sub>m\<^sub>a\<^sub>x = redTime[-1] > 0\<close> the grid has \<open>nfreq\<close> finite values, all positive, the
  first \<open>2\<pi>/t\<^sub>m\<^sub>a\<^sub>x\<close> and the last \<open>2\<pi>/(3\<Delta>t)\<close>. It is strictly increasing when
  \<open>t\<^sub>m\<^sub>a\<^sub>x \<ge> 4\<Delta>t\<close>, which for the equally spaced times \<open>0, \<Delta>t, 2\<Delta>t, \<dots>\<close> of the
  script is \<open>M \<ge> 5\<close>. The values are those of exact arithmetic; the code holds them
  rounded.
\<close>

theorem C4_frequency_grid:
  assumes "2 \<le> length redTime" and "0 < redTime ! 1" and "0 < last redTime"
  shows "\<exists>g. freq_grid nfreq redTime = Inr (map Fin g) \<and> length g = nfreq
           \<and> g ! 0 = 2 * pi / last redTime
           \<and> g ! (nfreq - 1) = 2 * pi / (3 * redTime ! 1)
           \<and> (\<forall>k<nfreq. 0 < g ! k)
           \<and> (4 * redTime ! 1 \<le> last redTime \<longrightarrow> (\<forall>j k. j < k \<and> k < nfreq \<longrightarrow> g ! j < g ! k))"
proof -
  let ?l = "2 * pi / last redTime" and ?h = "2 * pi / (redTime ! 1 * 3)"
  let ?a = "log 10 ?l" and ?b = "log 10 ?h"
  let ?e = "\<lambda>i. if i = nfreq - 1 then ?b else real i * ((?b - ?a) / real (nfreq - 1)) + ?a"
  let ?g = "map (\<lambda>i. 10 powr ?e i) [0..<nfreq]"
  have n: "1 < nfreq"
    by (simp add: nfreq_def)
  have lp: "0 < ?l"
    using assms(3) by simp
  have hp: "0 < ?h"
    using assms(2) by simp
  have grid: "freq_grid nfreq redTime = Inr (map Fin ?g)"
    unfolding freq_grid_fin [OF assms n] logspace_fin [OF n] ..
  have len: "length ?g = nfreq"
    by simp
  have "?g ! 0 = 10 powr ?a"
    using n by simp
  then have first: "?g ! 0 = ?l"
    using lp by simp
  have "?g ! (nfreq - 1) = 10 powr ?b"
    using n by simp
  then have "?g ! (nfreq - 1) = ?h"
    using hp by simp
  then have final: "?g ! (nfreq - 1) = 2 * pi / (3 * redTime ! 1)"
    by (simp add: mult.commute)
  have pos: "\<forall>k<nfreq. 0 < ?g ! k"
    by simp
  have mono: "\<forall>j k. j < k \<and> k < nfreq \<longrightarrow> ?g ! j < ?g ! k" if r: "4 * redTime ! 1 \<le> last redTime"
  proof (intro allI impI)
    fix j k
    assume jk: "j < k \<and> k < nfreq"
    have "redTime ! 1 * 3 < last redTime"
      using r assms(2) by simp
    then have "?l < ?h"
      using assms(2,3) by (simp add: frac_less2)
    then have "?a < ?b"
      using lp hp by simp
    then have "?e j < ?e k"
      using jk by (intro grid_exponent_mono) simp_all
    then have p: "10 powr ?e j < 10 powr ?e k"
      by simp
    have j: "j < nfreq" and k: "k < nfreq"
      using jk by simp_all
    show "?g ! j < ?g ! k"
      unfolding nth_map_upt0 [OF j] nth_map_upt0 [OF k] by (rule p)
  qed
  show ?thesis
    using grid len first final pos mono by blast
qed

theorem C4_frequency_grid_witness:
  "2 \<le> length [0, 1, 2, 3, 4 :: real] \<and> 0 < [0, 1, 2, 3, 4 :: real] ! 1
   \<and> 0 < last [0, 1, 2, 3, 4 :: real]
   \<and> (\<exists>g. freq_grid nfreq [0, 1, 2, 3, 4] = Inr (map Fin g) \<and> length g = nfreq
          \<and> g ! 0 = 2 * pi / 4 \<and> g ! (nfreq - 1) = 2 * pi / 3 \<and> g ! 0 < g ! (nfreq - 1))"
proof -
  have h1: "2 \<le> length [0, 1, 2, 3, 4 :: real]"
    by simp
  have h2: "0 < [0, 1, 2, 3, 4 :: real] ! 1"
    by simp
  have h3: "0 < last [0, 1, 2, 3, 4 :: real]"
    by simp
  have h4: "4 * [0, 1, 2, 3, 4 :: real] ! 1 \<le> last [0, 1, 2, 3, 4 :: real]"
    by simp
  have n: "0 < nfreq - 1 \<and> nfreq - 1 < nfreq"
    by (simp add: nfreq_def)
  from C4_frequency_grid [OF h1 h2 h3]
  obtain g where g: "freq_grid nfreq [0, 1, 2, 3, 4] = Inr (map Fin g)" "length g = nfreq"
    "g ! 0 = 2 * pi / last [0, 1, 2, 3, 4 :: real]"
    "g ! (nfreq - 1) = 2 * pi / (3 * [0, 1, 2, 3, 4 :: real] ! 1)"
    "4 * [0, 1, 2, 3, 4 :: real] ! 1 \<le> last [0, 1, 2, 3, 4 :: real]
       \<longrightarrow> (\<forall>j k. j < k \<and> k < nfreq \<longrightarrow> g ! j < g ! k)"
    by blast
  from g(5) h4 n have "g ! 0 < g ! (nfreq - 1)"
    by blast
  moreover have "g ! 0 = 2 * pi / 4" "g ! (nfreq - 1) = 2 * pi / 3"
    using g(3,4) by simp_all
  ultimately have "\<exists>g. freq_grid nfreq [0, 1, 2, 3, 4] = Inr (map Fin g) \<and> length g = nfreq
          \<and> g ! 0 = 2 * pi / 4 \<and> g ! (nfreq - 1) = 2 * pi / 3 \<and> g ! 0 < g ! (nfreq - 1)"
    using g(1,2) by blast
  then show ?thesis
    using h1 h2 h3 by blast
qed

end
